theory Spec2Isabelle
  imports
    Complex_Main
    "HOL-Library.AList"
    "HOL-Library.Char_ord"
    "HOL-Library.List_Lexorder"
    "HOL-Library.Product_Lexorder"
    "HOL-Library.Log_Nat"
begin

unbundle bit_operations_syntax

section \<open>Python floats\<close>

text \<open>
  A Python \<^verbatim>\<open>float\<close> is an IEEE 754 binary64 number: a finite value (a real number with
  a 53-bit significand and a binary exponent from -1022 to 1023), an infinity or a NaN.
  The sign of zero is not kept: no operation used here distinguishes \<^verbatim>\<open>-0.0\<close> from
  \<^verbatim>\<open>0.0\<close>.
\<close>

datatype pyfloat = Finite real | PosInf | NegInf | NaN


text \<open>
  Rounding a real number to the nearest binary64 value, ties to the even significand.
  \<open>floor_log2 a\<close> is the exponent \<open>e\<close> with \<open>2 ^ e \<le> a < 2 ^ (e + 1)\<close> of a positive
  \<open>a\<close>; below \<open>2 ^ - 1022\<close> the spacing of the subnormal numbers is used; a result
  of \<open>2 ^ 1024\<close> or more overflows to an infinity.
\<close>

definition pow2 :: "int \<Rightarrow> real" where
  "pow2 e = (if e \<ge> 0 then 2 ^ nat e else 1 / 2 ^ nat (- e))"

definition floor_log2 :: "real \<Rightarrow> int" where
  "floor_log2 a = (if a \<ge> 1 then bitlen \<lfloor>a\<rfloor> - 1 else - bitlen (\<lceil>1 / a\<rceil> - 1))"

definition round_half_even :: "real \<Rightarrow> int" where
  "round_half_even x =
     (let f = \<lfloor>x\<rfloor>; d = x - of_int f
      in if d < 1 / 2 then f else if d > 1 / 2 then f + 1 else if even f then f else f + 1)"

definition round_double :: "real \<Rightarrow> pyfloat" where
  "round_double x =
     (if x = 0 then Finite 0
      else
       (let a = \<bar>x\<bar>;
            e = max (floor_log2 a) (- 1022);
            u = pow2 (e - 52);
            r = of_int (round_half_even (a / u)) * u
        in if r \<ge> pow2 1024 then (if x > 0 then PosInf else NegInf)
           else Finite (if x > 0 then r else - r)))"

text \<open>
  The arithmetic: the exact result, rounded. A decimal literal of the source such as
  \<^verbatim>\<open>0.01\<close> is \<open>round_double (1 / 100)\<close>.
\<close>

fun fneg :: "pyfloat \<Rightarrow> pyfloat" where
  "fneg (Finite x) = Finite (- x)"
| "fneg PosInf = NegInf"
| "fneg NegInf = PosInf"
| "fneg NaN = NaN"

fun fabs :: "pyfloat \<Rightarrow> pyfloat" where
  "fabs (Finite x) = Finite \<bar>x\<bar>"
| "fabs PosInf = PosInf"
| "fabs NegInf = PosInf"
| "fabs NaN = NaN"

fun fadd :: "pyfloat \<Rightarrow> pyfloat \<Rightarrow> pyfloat" where
  "fadd (Finite x) (Finite y) = round_double (x + y)"
| "fadd NaN _ = NaN"
| "fadd _ NaN = NaN"
| "fadd PosInf NegInf = NaN"
| "fadd NegInf PosInf = NaN"
| "fadd PosInf _ = PosInf"
| "fadd _ PosInf = PosInf"
| "fadd NegInf _ = NegInf"
| "fadd _ NegInf = NegInf"

definition fsub :: "pyfloat \<Rightarrow> pyfloat \<Rightarrow> pyfloat" where
  "fsub x y = fadd x (fneg y)"

text \<open>Comparison: every comparison with a NaN is false.\<close>

fun flt :: "pyfloat \<Rightarrow> pyfloat \<Rightarrow> bool" where
  "flt NaN _ = False"
| "flt _ NaN = False"
| "flt (Finite x) (Finite y) = (x < y)"
| "flt NegInf NegInf = False"
| "flt NegInf _ = True"
| "flt _ NegInf = False"
| "flt PosInf _ = False"
| "flt _ PosInf = True"

definition fgt :: "pyfloat \<Rightarrow> pyfloat \<Rightarrow> bool" where
  "fgt x y = flt y x"

text \<open>
  True division \<^verbatim>\<open>x / y\<close> for a divisor that is not zero (a zero divisor raises
  \<^verbatim>\<open>ZeroDivisionError\<close>, which the callers below rule out before dividing).
\<close>

fun fdiv :: "pyfloat \<Rightarrow> pyfloat \<Rightarrow> pyfloat" where
  "fdiv (Finite x) (Finite y) = round_double (x / y)"
| "fdiv NaN _ = NaN"
| "fdiv _ NaN = NaN"
| "fdiv (Finite x) _ = Finite 0"
| "fdiv PosInf (Finite y) = (if y > 0 then PosInf else NegInf)"
| "fdiv NegInf (Finite y) = (if y > 0 then NegInf else PosInf)"
| "fdiv _ _ = NaN"

section \<open>Settlement: multilateral netting (gateway/api/settlement.py)\<close>

text \<open>
  A row handed to \<^verbatim>\<open>_calculate_net_positions\<close>; \<open>s_amount\<close> is the value of
  \<^verbatim>\<open>float(txn["amount"])\<close>.
\<close>

record settlement_row =
  s_debtor_account :: string
  s_creditor_account :: string
  s_currency :: string
  s_amount :: pyfloat

text \<open>One value of the \<^verbatim>\<open>positions\<close> dictionary.\<close>

record position =
  pos_account :: string
  pos_currency :: string
  pos_amount :: pyfloat

datatype instruction = PAY | RECEIVE

text \<open>An emitted position: the dictionary value with its instruction added.\<close>

record net_position =
  np_account :: string
  np_currency :: string
  np_amount :: pyfloat
  settlement_instruction :: instruction

text \<open>The dictionary key \<^verbatim>\<open>f"{account}:{currency}"\<close>.\<close>

definition position_key :: "string \<Rightarrow> string \<Rightarrow> string" where
  "position_key acct cur = acct @ '':'' @ cur"

text \<open>
  The \<^verbatim>\<open>positions\<close> dictionary is an association list in insertion order, which is the
  order Python iterates \<^verbatim>\<open>positions.values()\<close> in: a new key goes to the end, an
  existing entry is changed in place (\<open>AList.map_entry\<close>).
\<close>

type_synonym positions = "(string \<times> position) list"

definition ensure_key :: "string \<Rightarrow> string \<Rightarrow> string \<Rightarrow> positions \<Rightarrow> positions" where
  "ensure_key k acct cur ps =
     (if map_of ps k = None
      then ps @ [(k, \<lparr>pos_account = acct, pos_currency = cur, pos_amount = Finite 0\<rparr>)]
      else ps)"

text \<open>\<^verbatim>\<open>positions[key]["amount"] -= amount\<close> and \<^verbatim>\<open>positions[key]["amount"] += amount\<close>.\<close>

definition sub_amount :: "string \<Rightarrow> pyfloat \<Rightarrow> positions \<Rightarrow> positions" where
  "sub_amount k a ps = AList.map_entry k (\<lambda>p. p\<lparr>pos_amount := fsub (pos_amount p) a\<rparr>) ps"

definition add_amount :: "string \<Rightarrow> pyfloat \<Rightarrow> positions \<Rightarrow> positions" where
  "add_amount k a ps = AList.map_entry k (\<lambda>p. p\<lparr>pos_amount := fadd (pos_amount p) a\<rparr>) ps"

text \<open>One iteration of the loop over the transactions.\<close>

definition net_step :: "positions \<Rightarrow> settlement_row \<Rightarrow> positions" where
  "net_step ps t =
     (let key_debtor = position_key (s_debtor_account t) (s_currency t);
          key_creditor = position_key (s_creditor_account t) (s_currency t);
          ps1 = ensure_key key_debtor (s_debtor_account t) (s_currency t) ps;
          ps2 = sub_amount key_debtor (s_amount t) ps1;
          ps3 = ensure_key key_creditor (s_creditor_account t) (s_currency t) ps2
      in add_amount key_creditor (s_amount t) ps3)"

definition accumulate_positions :: "settlement_row list \<Rightarrow> positions" where
  "accumulate_positions txns = foldl net_step [] txns"

text \<open>
  The second loop: drop the small positions, add the instruction, take the magnitude.
  \<open>tolerance\<close> is the literal \<^verbatim>\<open>0.01\<close>.
\<close>

definition tolerance :: pyfloat where
  "tolerance = round_double (1 / 100)"

definition emit_position :: "position \<Rightarrow> net_position" where
  "emit_position p =
     \<lparr>np_account = pos_account p, np_currency = pos_currency p,
      np_amount = fabs (pos_amount p),
      settlement_instruction = (if flt (pos_amount p) (Finite 0) then PAY else RECEIVE)\<rparr>"

definition calculate_net_positions :: "settlement_row list \<Rightarrow> net_position list" where
  "calculate_net_positions txns =
     map emit_position
       (filter (\<lambda>p. fgt (fabs (pos_amount p)) tolerance)
          (map snd (accumulate_positions txns)))"

text \<open>
  The keys a transaction touches, in the order the loop touches them, and the order of
  first occurrence of the elements of a list (each element once, at its first position).
\<close>

definition txn_keys :: "settlement_row \<Rightarrow> string list" where
  "txn_keys t = [position_key (s_debtor_account t) (s_currency t),
                 position_key (s_creditor_account t) (s_currency t)]"

definition first_seen :: "'a list \<Rightarrow> 'a list" where
  "first_seen ks = rev (remdups (rev ks))"

definition np_key :: "net_position \<Rightarrow> string" where
  "np_key np = position_key (np_account np) (np_currency np)"

definition np_sort_key :: "net_position \<Rightarrow> string \<times> string" where
  "np_sort_key np = (np_account np, np_currency np)"




text \<open>
  The (account, currency) pairs of a batch, and the batches in which the key
  \<^verbatim>\<open>account:currency\<close> tells the pairs apart. This holds when no currency contains a
  colon, and when all currencies have the same length, as the three-letter codes have.
\<close>

definition txn_pairs :: "settlement_row \<Rightarrow> (string \<times> string) list" where
  "txn_pairs t = [(s_debtor_account t, s_currency t), (s_creditor_account t, s_currency t)]"

definition batch_pairs :: "settlement_row list \<Rightarrow> (string \<times> string) list" where
  "batch_pairs txns = concat (map txn_pairs txns)"

definition key_injective :: "(string \<times> string) set \<Rightarrow> bool" where
  "key_injective T =
     (\<forall>p \<in> T. \<forall>q \<in> T. position_key (fst p) (snd p) = position_key (fst q) (snd q) \<longrightarrow> p = q)"

definition keys_determine_pairs :: "settlement_row list \<Rightarrow> bool" where
  "keys_determine_pairs txns = key_injective (set (batch_pairs txns))"







subsection \<open>The net-position algorithm as the specification words it\<close>




subsection \<open>Concrete batches\<close>

definition usd :: "string \<Rightarrow> string \<Rightarrow> pyfloat \<Rightarrow> settlement_row" where
  "usd d c a = \<lparr>s_debtor_account = d, s_creditor_account = c, s_currency = ''USD'', s_amount = a\<rparr>"

definition scenario_payments :: "settlement_row list" where
  "scenario_payments =
     [usd ''A'' ''B'' (Finite 100), usd ''B'' ''C'' (Finite 40), usd ''C'' ''A'' (Finite 20)]"

definition cent_payments :: "settlement_row list" where
  "cent_payments =
     [usd ''A'' ''B'' (round_double (1 / 100)), usd ''A'' ''C'' (round_double (1 / 100)),
      usd ''A'' ''D'' (round_double (1 / 100))]"

definition reversed_payment :: "settlement_row list" where
  "reversed_payment = [usd ''B'' ''A'' (Finite 100)]"

text \<open>Two payments whose pairs (\<^verbatim>\<open>A:B\<close>, \<^verbatim>\<open>C\<close>) and (\<^verbatim>\<open>A\<close>, \<^verbatim>\<open>B:C\<close>) share a key.\<close>

definition colliding_payments :: "settlement_row list" where
  "colliding_payments =
     [\<lparr>s_debtor_account = ''A:B'', s_creditor_account = ''Z'', s_currency = ''C'',
       s_amount = Finite 100\<rparr>,
      \<lparr>s_debtor_account = ''A'', s_creditor_account = ''Y'', s_currency = ''B:C'',
       s_amount = Finite 50\<rparr>]"



subsection \<open>Invariants of the accumulation loop\<close>

definition add_key :: "'a list \<Rightarrow> 'a \<Rightarrow> 'a list" where
  "add_key ks k = (if k \<in> set ks then ks else ks @ [k])"

definition keyed :: "positions \<Rightarrow> bool" where
  "keyed ps = (\<forall>(k, p) \<in> set ps. k = position_key (pos_account p) (pos_currency p))"




section \<open>Risk controller (gateway/api/risk.py)\<close>

subsection \<open>Clock and stored rows\<close>

text \<open>
  Time is the Unix time in seconds. \<^verbatim>\<open>datetime.utcnow().weekday()\<close> numbers the days
  from Monday = 0 to Sunday = 6; 1 January 1970 was a Thursday (3).
\<close>

definition utc_weekday :: "int \<Rightarrow> int" where
  "utc_weekday now = (now div 86400 + 3) mod 7"

text \<open>
  The transaction handed to \<^verbatim>\<open>_assess_transaction_risk\<close>, as far as it is read.
\<close>

record txn =
  debtor_account :: string
  creditor_account :: string
  currency :: string
  amount :: real

text \<open>A row of the \<^verbatim>\<open>payments\<close> table, as far as the risk assessment reads it.\<close>

record payment_row = txn +
  created_at :: int

text \<open>
  The query of \<^verbatim>\<open>_assess_transaction_risk\<close>: one row holding
  \<^verbatim>\<open>COUNT(*)\<close> of the payments of the debtor created in the last 24 hours.
\<close>

definition fetch_recent_count :: "payment_row list \<Rightarrow> int \<Rightarrow> string \<Rightarrow> int list" where
  "fetch_recent_count payments now debtor =
     [int (length (filter (\<lambda>r. debtor_account r = debtor \<and> created_at r \<ge> now - 24 * 3600)
                     payments))]"

subsection \<open>Assessment of one transaction\<close>

record assessment =
  risk_score :: real
  risk_factors :: "string list"
  recommended_action :: string

definition high_risk_currencies :: "string list" where
  "high_risk_currencies = [''AED'', ''INR'', ''CNY'']"

text \<open>
  The function body, statement by statement; the pair carries the local variables
  \<^verbatim>\<open>risk_factors\<close> and \<^verbatim>\<open>risk_score\<close>.
\<close>

definition assess_transaction_risk ::
  "payment_row list \<Rightarrow> int \<Rightarrow> 'a txn_scheme \<Rightarrow> assessment" where
  "assess_transaction_risk payments now transaction =
     (let s0 = ([] :: string list, 0 :: int);
          s1 = (if amount transaction > 100000
                then (fst s0 @ [''HIGH_VALUE''], snd s0 + 20) else s0);
          s2 = (if currency transaction \<in> set high_risk_currencies
                then (fst s1 @ [''HIGH_RISK_CURRENCY''], snd s1 + 15) else s1);
          recent_transactions = fetch_recent_count payments now (debtor_account transaction);
          s3 = (if (case recent_transactions of [] \<Rightarrow> False | r # _ \<Rightarrow> r > 10)
                then (fst s2 @ [''HIGH_FREQUENCY''], snd s2 + 10) else s2);
          s4 = (if utc_weekday now \<ge> 5
                then (fst s3 @ [''WEEKEND_TRANSACTION''], snd s3 + 5) else s3);
          action = (if snd s4 \<ge> 40 then ''MANUAL_REVIEW''
                    else if snd s4 \<ge> 20 then ''ENHANCED_MONITORING''
                    else ''APPROVE'')
      in \<lparr>risk_score = real_of_int (snd s4), risk_factors = fst s4,
          recommended_action = action\<rparr>)"

text \<open>The number of payments of a debtor in the 24 hours before \<open>now\<close>.\<close>

definition payments_in_prior_24h :: "payment_row list \<Rightarrow> int \<Rightarrow> string \<Rightarrow> nat" where
  "payments_in_prior_24h payments now debtor =
     length (filter (\<lambda>r. debtor_account r = debtor \<and> now - 86400 \<le> created_at r) payments)"

text \<open>
  The scenario of the specification: 250000 AED from debtor D1, twelve payments of D1 in
  the last day, on Saturday 3 January 1970, 01:00 UTC.
\<close>

definition saturday :: int where
  "saturday = 2 * 86400 + 3600"

definition d1_row :: payment_row where
  "d1_row = \<lparr>debtor_account = ''D1'', creditor_account = ''C1'', currency = ''AED'',
             amount = 250000, created_at = 2 * 86400\<rparr>"

definition d1_payments :: "payment_row list" where
  "d1_payments = replicate 12 d1_row"

subsection \<open>System metrics\<close>

datatype RiskMode = LOW | MEDIUM | HIGH

text \<open>
  The threshold fields are floats: a decimal literal is the nearest double, an integer
  literal given for a float field is converted exactly.
\<close>

record RiskThresholds =
  spread_threshold :: pyfloat
  depth_threshold :: pyfloat
  deviation_threshold :: pyfloat
  latency_threshold_ms :: int
  volume_threshold_usd :: pyfloat

fun RISK_THRESHOLDS :: "RiskMode \<Rightarrow> RiskThresholds" where
  "RISK_THRESHOLDS LOW =
     \<lparr>spread_threshold = round_double (1 / 1000), depth_threshold = Finite 1000000,
      deviation_threshold = round_double (5 / 100), latency_threshold_ms = 100,
      volume_threshold_usd = Finite 10000000\<rparr>"
| "RISK_THRESHOLDS MEDIUM =
     \<lparr>spread_threshold = round_double (5 / 1000), depth_threshold = Finite 500000,
      deviation_threshold = round_double (10 / 100), latency_threshold_ms = 200,
      volume_threshold_usd = Finite 5000000\<rparr>"
| "RISK_THRESHOLDS HIGH =
     \<lparr>spread_threshold = round_double (1 / 100), depth_threshold = Finite 100000,
      deviation_threshold = round_double (20 / 100), latency_threshold_ms = 500,
      volume_threshold_usd = Finite 1000000\<rparr>"

record RiskMetrics =
  m_spread :: pyfloat
  m_depth :: pyfloat
  m_deviation :: pyfloat
  m_latency_ms :: int
  m_volume_24h_usd :: pyfloat
  m_risk_score :: pyfloat

text \<open>
  A row of \<^verbatim>\<open>liquidity_quotes\<close>; \<open>q_spread\<close> and \<open>q_amount\<close> are the values of
  \<^verbatim>\<open>float(q["spread"])\<close> and \<^verbatim>\<open>float(q["amount"])\<close>, the latency is an integer.
\<close>

record quote_row =
  q_spread :: pyfloat
  q_amount :: pyfloat
  q_latency_ms :: int
  q_created_at :: int

definition fetch_recent_quotes :: "quote_row list \<Rightarrow> int \<Rightarrow> quote_row list" where
  "fetch_recent_quotes quotes now = filter (\<lambda>q. q_created_at q \<ge> now - 3600) quotes"

text \<open>
  The exceptions the function can raise, and the sequencing of computations that may
  raise: the first exception ends the computation.
\<close>

datatype risk_error = ValueError | OverflowError | ZeroDivisionError

fun and_then :: "risk_error + 'a \<Rightarrow> ('a \<Rightarrow> risk_error + 'b) \<Rightarrow> risk_error + 'b" where
  "and_then (Inl e) f = Inl e"
| "and_then (Inr x) f = f x"

fun sequence_err :: "(risk_error + 'a) list \<Rightarrow> risk_error + 'a list" where
  "sequence_err [] = Inr []"
| "sequence_err (r # rs) = and_then r (\<lambda>x. and_then (sequence_err rs) (\<lambda>xs. Inr (x # xs)))"

text \<open>
  \<^verbatim>\<open>RiskMode(value)\<close>: the enum member with that value, \<^verbatim>\<open>ValueError\<close> otherwise.
\<close>

definition RiskMode_of :: "string \<Rightarrow> risk_error + RiskMode" where
  "RiskMode_of s =
     (if s = ''Low'' then Inr LOW
      else if s = ''Medium'' then Inr MEDIUM
      else if s = ''High'' then Inr HIGH
      else Inl ValueError)"

text \<open>
  \<^verbatim>\<open>int(x)\<close> on a float truncates towards zero; it raises on a NaN and on an infinity.
\<close>

fun py_int :: "pyfloat \<Rightarrow> risk_error + int" where
  "py_int (Finite x) = Inr (if x \<ge> 0 then \<lfloor>x\<rfloor> else \<lceil>x\<rceil>)"
| "py_int NaN = Inl ValueError"
| "py_int _ = Inl OverflowError"

text \<open>
  The three divisions of the function. \<^verbatim>\<open>x / y\<close> on floats raises for a zero divisor.
  In \<^verbatim>\<open>x / n\<close> with a float \<open>x\<close> and an integer \<open>n\<close> the integer is converted to the
  nearest float first, which raises when it is out of range. \<^verbatim>\<open>a / b\<close> on integers is
  the exact quotient rounded once, and raises when that is out of range.
\<close>

definition truediv :: "pyfloat \<Rightarrow> pyfloat \<Rightarrow> risk_error + pyfloat" where
  "truediv x y = (if y = Finite 0 then Inl ZeroDivisionError else Inr (fdiv x y))"

definition int_to_float :: "int \<Rightarrow> risk_error + pyfloat" where
  "int_to_float n =
     (case round_double (real_of_int n) of Finite r \<Rightarrow> Inr (Finite r) | _ \<Rightarrow> Inl OverflowError)"

definition truediv_int :: "pyfloat \<Rightarrow> int \<Rightarrow> risk_error + pyfloat" where
  "truediv_int x n = and_then (int_to_float n) (truediv x)"

definition int_truediv :: "int \<Rightarrow> int \<Rightarrow> risk_error + pyfloat" where
  "int_truediv a b =
     (if b = 0 then Inl ZeroDivisionError
      else case round_double (real_of_int a / real_of_int b) of
             Finite r \<Rightarrow> Inr (Finite r)
           | _ \<Rightarrow> Inl OverflowError)"

text \<open>
  \<open>default_metrics\<close> is the record of the early return for an empty hour.
  The value cached under \<^verbatim>\<open>risk:current_mode\<close> is \<open>None\<close> when the key is absent
  (or holds an empty dictionary), and otherwise the dictionary's optional
  \<^verbatim>\<open>current_mode\<close> entry.

  Two operations of the function are taken as parameters, because their result is fixed
  by the interpreter and the C library rather than by the program: \<open>py_sum\<close> is the
  built-in \<^verbatim>\<open>sum\<close> on a sequence of floats (a running float addition up to
  Python 3.11, a compensated summation from Python 3.12 on), and \<open>py_pow x y\<close> is
  \<^verbatim>\<open>x ** y\<close> on floats, which raises \<^verbatim>\<open>OverflowError\<close> when the power is out of
  range. \<^verbatim>\<open>sum\<close> on the integer latencies is exact. The squares are produced one by
  one while they are summed, so the first power that raises ends the computation. The
  comparison of the float \<open>avg_latency\<close> with the integer threshold is exact, and so is
  the conversion of the integer score to a float.
\<close>

definition default_metrics :: RiskMetrics where
  "default_metrics =
     \<lparr>m_spread = round_double (2 / 1000), m_depth = Finite 1000000,
      m_deviation = round_double (5 / 100), m_latency_ms = 80,
      m_volume_24h_usd = Finite 5000000, m_risk_score = Finite 25\<rparr>"

definition calculate_risk_metrics ::
  "(pyfloat list \<Rightarrow> pyfloat) \<Rightarrow> (pyfloat \<Rightarrow> pyfloat \<Rightarrow> risk_error + pyfloat) \<Rightarrow>
   quote_row list \<Rightarrow> int \<Rightarrow> string option option \<Rightarrow> risk_error + RiskMetrics" where
  "calculate_risk_metrics py_sum py_pow quotes now current_mode_data =
     (let recent_quotes = fetch_recent_quotes quotes now in
      if recent_quotes = [] then
        Inr default_metrics
      else
       (let spreads = map q_spread recent_quotes;
            latencies = map q_latency_ms recent_quotes;
            amounts = map q_amount recent_quotes
        in
        and_then (if spreads \<noteq> [] then truediv_int (py_sum spreads) (int (length spreads))
                  else Inr (round_double (2 / 1000))) (\<lambda>avg_spread.
        and_then (if latencies \<noteq> []
                  then int_truediv (sum_list latencies) (int (length latencies))
                  else Inr (Finite 80)) (\<lambda>avg_latency.
        let total_volume = py_sum amounts in
        and_then
          (if length spreads > 1 then
             (let mean_spread = avg_spread in
              and_then (sequence_err (map (\<lambda>s. py_pow (fsub s mean_spread) (Finite 2)) spreads))
                (\<lambda>squares.
              and_then (truediv_int (py_sum squares) (int (length spreads))) (\<lambda>variance.
              if fgt mean_spread (Finite 0)
              then and_then (py_pow variance (round_double (1 / 2)))
                     (\<lambda>root. truediv root mean_spread)
              else Inr (Finite 0))))
           else Inr (round_double (5 / 100))) (\<lambda>deviation.
        and_then (case current_mode_data of
                    Some d \<Rightarrow> RiskMode_of (case d of Some s \<Rightarrow> s | None \<Rightarrow> ''Medium'')
                  | None \<Rightarrow> Inr MEDIUM) (\<lambda>current_mode.
        let thresholds = RISK_THRESHOLDS current_mode;
            r0 = (0 :: int);
            r1 = (if fgt avg_spread (spread_threshold thresholds) then r0 + 25 else r0);
            r2 = (if fgt deviation (deviation_threshold thresholds) then r1 + 25 else r1);
            r3 = (if fgt avg_latency (Finite (real_of_int (latency_threshold_ms thresholds)))
                  then r2 + 25 else r2);
            r4 = (if fgt total_volume (volume_threshold_usd thresholds) then r3 + 25 else r3)
        in and_then (py_int avg_latency) (\<lambda>latency_ms.
           Inr \<lparr>m_spread = avg_spread, m_depth = total_volume, m_deviation = deviation,
                m_latency_ms = latency_ms, m_volume_24h_usd = total_volume,
                m_risk_score = Finite (real_of_int r4)\<rparr>)))))))"

subsection \<open>The metrics as the specification words them\<close>

text \<open>
  Mean of a list of floats and of a list of integers; the variance is the mean of the
  squared distances from the mean, the standard deviation its square root.
\<close>

definition mean ::
  "(pyfloat list \<Rightarrow> pyfloat) \<Rightarrow> pyfloat list \<Rightarrow> risk_error + pyfloat" where
  "mean py_sum xs = truediv_int (py_sum xs) (int (length xs))"

definition mean_int :: "int list \<Rightarrow> risk_error + pyfloat" where
  "mean_int ns = int_truediv (sum_list ns) (int (length ns))"

definition variance ::
  "(pyfloat list \<Rightarrow> pyfloat) \<Rightarrow> (pyfloat \<Rightarrow> pyfloat \<Rightarrow> risk_error + pyfloat) \<Rightarrow>
   pyfloat list \<Rightarrow> risk_error + pyfloat" where
  "variance py_sum py_pow xs =
     and_then (mean py_sum xs) (\<lambda>m.
     and_then (sequence_err (map (\<lambda>x. py_pow (fsub x m) (Finite 2)) xs)) (mean py_sum))"

definition stddev_of ::
  "(pyfloat \<Rightarrow> pyfloat \<Rightarrow> risk_error + pyfloat) \<Rightarrow> pyfloat \<Rightarrow> risk_error + pyfloat" where
  "stddev_of py_pow v = py_pow v (round_double (1 / 2))"

text \<open>The number of thresholds breached by the four aggregates.\<close>

definition breaches ::
  "RiskThresholds \<Rightarrow> pyfloat \<Rightarrow> pyfloat \<Rightarrow> pyfloat \<Rightarrow> pyfloat \<Rightarrow> nat" where
  "breaches th spread deviation latency volume =
     (if fgt spread (spread_threshold th) then 1 else 0)
   + (if fgt deviation (deviation_threshold th) then 1 else 0)
   + (if fgt latency (Finite (real_of_int (latency_threshold_ms th))) then 1 else 0)
   + (if fgt volume (volume_threshold_usd th) then 1 else 0)"

text \<open>The mode the metrics are scored against.\<close>

definition mode_of_cache :: "string option option \<Rightarrow> risk_error + RiskMode" where
  "mode_of_cache c =
     (case c of None \<Rightarrow> Inr MEDIUM
      | Some None \<Rightarrow> Inr MEDIUM
      | Some (Some s) \<Rightarrow> RiskMode_of s)"

text \<open>
  The deviation: 0.05 for fewer than two samples; otherwise the ratio of the standard
  deviation to the mean of the spreads when the mean is positive, and 0 when it is not.
\<close>

definition spread_deviation ::
  "(pyfloat list \<Rightarrow> pyfloat) \<Rightarrow> (pyfloat \<Rightarrow> pyfloat \<Rightarrow> risk_error + pyfloat) \<Rightarrow>
   pyfloat list \<Rightarrow> risk_error + pyfloat" where
  "spread_deviation py_sum py_pow spreads =
     (if length spreads < 2 then Inr (round_double (5 / 100))
      else and_then (mean py_sum spreads) (\<lambda>m.
           and_then (variance py_sum py_pow spreads) (\<lambda>v.
           if fgt m (Finite 0) then and_then (stddev_of py_pow v) (\<lambda>sd. truediv sd m)
           else Inr (Finite 0))))"

subsection \<open>Concrete sum, power and quotes\<close>

text \<open>
  \<open>left_sum\<close> is \<^verbatim>\<open>sum\<close> as a running addition from 0. \<open>rounded_pow\<close> rounds the
  exact power for the two exponents the function uses, 2 and 0.5, the latter on a base
  that is not negative.
\<close>

definition left_sum :: "pyfloat list \<Rightarrow> pyfloat" where
  "left_sum xs = foldl fadd (Finite 0) xs"

definition rounded_pow :: "pyfloat \<Rightarrow> pyfloat \<Rightarrow> risk_error + pyfloat" where
  "rounded_pow x y =
     (case x of
        Finite a \<Rightarrow>
          (case round_double (if y = Finite 2 then a ^ 2 else sqrt a) of
             Finite r \<Rightarrow> Inr (Finite r)
           | _ \<Rightarrow> Inl OverflowError)
      | _ \<Rightarrow> Inr (fabs x))"

definition steady_quotes :: "quote_row list" where
  "steady_quotes =
     [\<lparr>q_spread = round_double (2 / 1000), q_amount = Finite 3000000, q_latency_ms = 300,
       q_created_at = 1000\<rparr>,
      \<lparr>q_spread = round_double (2 / 1000), q_amount = Finite 3000000, q_latency_ms = 301,
       q_created_at = 2000\<rparr>]"

text \<open>Eighteen quotes of spread 0.005 within the hour.\<close>

definition even_quotes :: "quote_row list" where
  "even_quotes =
     replicate 18 \<lparr>q_spread = round_double (5 / 1000), q_amount = Finite 1000,
                   q_latency_ms = 50, q_created_at = 1000\<rparr>"
section \<open>Time-ordered identifiers (shared/utils/uuidv7.py)\<close>

text \<open>
  Python integers are unbounded: \<open>int\<close>, with \<^verbatim>\<open>>>\<close> as \<open>drop_bit\<close>, \<^verbatim>\<open><<\<close> as
  \<open>push_bit\<close> and \<^verbatim>\<open>&\<close>, \<^verbatim>\<open>|\<close> as \<open>AND\<close>, \<open>OR\<close>. The clock reading
  \<^verbatim>\<open>int(time.time() * 1000)\<close> and the integers of the two \<^verbatim>\<open>uuid.uuid4()\<close> draws
  are arguments. \<^verbatim>\<open>uuid.UUID(int=n)\<close> raises \<^verbatim>\<open>ValueError\<close> unless
  \<open>0 \<le> n < 2 ^ 128\<close>.
\<close>

datatype uuid_error = UuidValueError

definition UUID_of_int :: "int \<Rightarrow> uuid_error + int" where
  "UUID_of_int n = (if 0 \<le> n \<and> n < 2 ^ 128 then Inr n else Inl UuidValueError)"

definition uuid_int :: "int \<Rightarrow> int \<Rightarrow> int \<Rightarrow> int" where
  "uuid_int timestamp_ms uuid4_a uuid4_b =
     (let timestamp_high = drop_bit 16 timestamp_ms AND 0xFFFFFFFF;
          timestamp_low = timestamp_ms AND 0xFFFF;
          random_a = uuid4_a AND 0xFFF;
          random_b = uuid4_b AND 0x3FFFFFFFFFFFFFFF
      in push_bit 96 timestamp_high
         OR push_bit 80 timestamp_low
         OR push_bit 76 7
         OR push_bit 64 random_a
         OR push_bit 62 2
         OR random_b)"

definition generate_uuidv7 :: "int \<Rightarrow> int \<Rightarrow> int \<Rightarrow> uuid_error + int" where
  "generate_uuidv7 timestamp_ms uuid4_a uuid4_b =
     UUID_of_int (uuid_int timestamp_ms uuid4_a uuid4_b)"

text \<open>
  The layout the specification describes, most significant field first: 48 bits of
  timestamp, 12 random bits, the 4-bit version 7, 62 random bits, the 2-bit variant 10.
\<close>

definition described_layout :: "int \<Rightarrow> int \<Rightarrow> int \<Rightarrow> int" where
  "described_layout ts ra rb =
     concat_bit 2 2 (concat_bit 62 rb (concat_bit 4 7 (concat_bit 12 ra (take_bit 48 ts))))"

text \<open>
  The layout of the code, most significant field first: 48 bits of timestamp, the 4-bit
  version 7, 12 random bits, the 2-bit variant 10, 62 random bits.
\<close>

definition rfc_layout :: "int \<Rightarrow> int \<Rightarrow> int \<Rightarrow> int" where
  "rfc_layout ts ra rb =
     concat_bit 62 rb (concat_bit 2 2 (concat_bit 12 ra (concat_bit 4 7 (take_bit 48 ts))))"

text \<open>The integer of a version-4 identifier whose random bits are all zero.\<close>

definition uuid4_zero :: int where
  "uuid4_zero = push_bit 76 4 OR push_bit 62 2"

section \<open>Errors and their HTTP status (shared/utils/errors.py, gateway/main.py)\<close>

datatype ErrorCode =
    INTERNAL_ERROR | VALIDATION_ERROR | NOT_FOUND | UNAUTHORIZED | FORBIDDEN | CONFLICT
  | RATE_LIMITED
  | INSUFFICIENT_FUNDS | INVALID_ACCOUNT | INVALID_AMOUNT | PAYMENT_EXPIRED | PAYMENT_CANCELLED
  | DUPLICATE_PAYMENT
  | SETTLEMENT_FAILED | BATCH_CLOSED | NETTING_ERROR | LIQUIDITY_UNAVAILABLE
  | RISK_THRESHOLD_EXCEEDED | RISK_ASSESSMENT_FAILED | HIGH_RISK_TRANSACTION
  | SANCTIONS_VIOLATION | PEP_VIOLATION | TRAVEL_RULE_VIOLATION | INCOMPLETE_KYC
  | COMPLIANCE_CHECK_FAILED
  | BLOCK_VALIDATION_FAILED | CONSENSUS_FAILED | INVALID_SIGNATURE | DOUBLE_SPEND
  | EXTERNAL_SERVICE_ERROR | TIMEOUT_ERROR | NETWORK_ERROR

fun ERROR_STATUS_MAPPING :: "ErrorCode \<Rightarrow> int option" where
  "ERROR_STATUS_MAPPING VALIDATION_ERROR = Some 400"
| "ERROR_STATUS_MAPPING NOT_FOUND = Some 404"
| "ERROR_STATUS_MAPPING UNAUTHORIZED = Some 401"
| "ERROR_STATUS_MAPPING FORBIDDEN = Some 403"
| "ERROR_STATUS_MAPPING CONFLICT = Some 409"
| "ERROR_STATUS_MAPPING RATE_LIMITED = Some 429"
| "ERROR_STATUS_MAPPING INSUFFICIENT_FUNDS = Some 400"
| "ERROR_STATUS_MAPPING INVALID_ACCOUNT = Some 400"
| "ERROR_STATUS_MAPPING INVALID_AMOUNT = Some 400"
| "ERROR_STATUS_MAPPING PAYMENT_EXPIRED = Some 410"
| "ERROR_STATUS_MAPPING PAYMENT_CANCELLED = Some 409"
| "ERROR_STATUS_MAPPING DUPLICATE_PAYMENT = Some 409"
| "ERROR_STATUS_MAPPING SETTLEMENT_FAILED = Some 500"
| "ERROR_STATUS_MAPPING BATCH_CLOSED = Some 409"
| "ERROR_STATUS_MAPPING NETTING_ERROR = Some 500"
| "ERROR_STATUS_MAPPING LIQUIDITY_UNAVAILABLE = Some 503"
| "ERROR_STATUS_MAPPING RISK_THRESHOLD_EXCEEDED = Some 403"
| "ERROR_STATUS_MAPPING RISK_ASSESSMENT_FAILED = Some 500"
| "ERROR_STATUS_MAPPING HIGH_RISK_TRANSACTION = Some 403"
| "ERROR_STATUS_MAPPING SANCTIONS_VIOLATION = Some 403"
| "ERROR_STATUS_MAPPING PEP_VIOLATION = Some 403"
| "ERROR_STATUS_MAPPING TRAVEL_RULE_VIOLATION = Some 400"
| "ERROR_STATUS_MAPPING INCOMPLETE_KYC = Some 400"
| "ERROR_STATUS_MAPPING COMPLIANCE_CHECK_FAILED = Some 500"
| "ERROR_STATUS_MAPPING BLOCK_VALIDATION_FAILED = Some 500"
| "ERROR_STATUS_MAPPING CONSENSUS_FAILED = Some 500"
| "ERROR_STATUS_MAPPING INVALID_SIGNATURE = Some 400"
| "ERROR_STATUS_MAPPING DOUBLE_SPEND = Some 409"
| "ERROR_STATUS_MAPPING EXTERNAL_SERVICE_ERROR = Some 502"
| "ERROR_STATUS_MAPPING TIMEOUT_ERROR = Some 504"
| "ERROR_STATUS_MAPPING NETWORK_ERROR = Some 502"
| "ERROR_STATUS_MAPPING INTERNAL_ERROR = Some 500"

definition get_http_status :: "ErrorCode \<Rightarrow> int" where
  "get_http_status error_code =
     (case ERROR_STATUS_MAPPING error_code of Some s \<Rightarrow> s | None \<Rightarrow> 500)"

text \<open>
  The exceptions that reach a handler's \<^verbatim>\<open>except\<close> clauses: the typed errors of the
  repository (\<open>ValidationError\<close> with its field, \<open>PaymentError\<close> with its code,
  \<open>ExternalServiceError\<close> with its service), FastAPI's \<open>HTTPException\<close> with its
  status, and the exceptions of the runtime and of the database driver.
\<close>

datatype exn =
    ValidationError string
  | PaymentError ErrorCode
  | ExternalServiceError string
  | HTTPException int
  | PyValueError
  | PyNameError string
  | PyRuntimeError
  | UniqueViolationError

text \<open>
  The exception handlers of gateway/main.py: a typed error answers with the status of its
  code, an \<open>HTTPException\<close> with its own status, anything else with 500.
\<close>

fun http_status_of :: "exn \<Rightarrow> int" where
  "http_status_of (ValidationError field) = get_http_status VALIDATION_ERROR"
| "http_status_of (PaymentError code) = get_http_status code"
| "http_status_of (ExternalServiceError service) = get_http_status EXTERNAL_SERVICE_ERROR"
| "http_status_of (HTTPException status) = status"
| "http_status_of _ = 500"

section \<open>The stores the gateway works on\<close>

datatype TransactionStatus =
    INITIATED | VALIDATED | SCREENED | APPROVED | REJECTED | SETTLED | COMPLETED | FAILED
  | CANCELLED

text \<open>A row of the \<^verbatim>\<open>payments\<close> table as \<^verbatim>\<open>initiate_payment\<close> writes it.\<close>

record payment =
  row_transaction_id :: int
  row_uetr :: int
  row_amount :: string
  row_currency :: string
  row_debtor_account :: string
  row_creditor_account :: string
  row_payment_purpose :: "string option"
  row_settlement_method :: "string option"
  row_status :: TransactionStatus
  row_created_at :: int
  row_trace_id :: "string option"
  idempotency_key :: string

record LiquidityQuote =
  quote_id :: string
  from_currency :: string
  to_currency :: string
  quote_amount :: real
  mid_rate :: real
  applied_rate :: real
  quote_spread :: real
  source :: string
  ttl_seconds :: int
  expires_at :: int
  utility_score :: real

record execution_result =
  execution_id :: int
  executed_quote_id :: string
  executed_rate :: real
  executed_at :: int
  execution_status :: string

text \<open>The content of a JSON response, and a response.\<close>

datatype content = ErrorContent string string | Content string | Null

record response =
  status_code :: int
  body :: content
  headers :: "(string \<times> string) list"

text \<open>
  What a key of the key-value store can hold after \<^verbatim>\<open>json.loads\<close>: a cached response
  (status, headers, body), a quote dictionary, the empty dictionary, or a JSON value that is
  no dictionary: a true one (\<open>OtherJson\<close>: a non-empty string or list, a non-zero
  number, \<^verbatim>\<open>true\<close>) or a false one (\<open>FalsyJson\<close>: 0, the empty string or list,
  \<^verbatim>\<open>false\<close>, \<^verbatim>\<open>null\<close>).
\<close>

datatype kv_value =
    CachedResponse "int option" "(string \<times> string) list option" "content option"
  | QuoteDict LiquidityQuote
  | EmptyDict
  | OtherJson
  | FalsyJson

datatype event = PaymentInitiated payment | QuoteExecuted execution_result

record request =
  http_method :: string
  http_path :: string
  idempotency_key_header :: "string option"

text \<open>
  The state behind the three global clients: the \<^verbatim>\<open>payments\<close> table, the key-value
  store, the published events in order, and whether each client is connected (every client
  method starts with \<^verbatim>\<open>raise RuntimeError("Not connected ...")\<close> otherwise). The field
  \<open>handled\<close> is an observation, not program state: the requests that were handed to the
  inner handler, in order. Expiry of keys is not modelled.
\<close>

record world =
  payments_table :: "payment list"
  kv :: "string \<rightharpoonup> kv_value"
  published :: "(string \<times> event) list"
  handled :: "request list"
  pg_connected :: bool
  redis_connected :: bool
  nats_connected :: bool

subsection \<open>Client calls (shared/clients)\<close>

definition redis_get :: "string \<Rightarrow> world \<Rightarrow> exn + kv_value option" where
  "redis_get key w = (if \<not> redis_connected w then Inl PyRuntimeError else Inr (kv w key))"

definition redis_set :: "string \<Rightarrow> kv_value \<Rightarrow> world \<Rightarrow> (exn + unit) \<times> world" where
  "redis_set key v w =
     (if \<not> redis_connected w then (Inl PyRuntimeError, w)
      else (Inr (), w\<lparr>kv := (kv w)(key \<mapsto> v)\<rparr>))"

definition redis_delete :: "string \<Rightarrow> world \<Rightarrow> (exn + unit) \<times> world" where
  "redis_delete key w =
     (if \<not> redis_connected w then (Inl PyRuntimeError, w)
      else (Inr (), w\<lparr>kv := (kv w)(key := None)\<rparr>))"

definition publish :: "string \<Rightarrow> event \<Rightarrow> world \<Rightarrow> (exn + unit) \<times> world" where
  "publish subject ev w =
     (if \<not> nats_connected w then (Inl PyRuntimeError, w)
      else (Inr (), w\<lparr>published := published w @ [(subject, ev)]\<rparr>))"

text \<open>
  \<^verbatim>\<open>insert_returning\<close> issues a plain \<^verbatim>\<open>INSERT ... RETURNING *\<close>, without any
  \<^verbatim>\<open>ON CONFLICT\<close> clause. The table definitions are not part of the sources, so whether
  \<^verbatim>\<open>payments.idempotency_key\<close> carries a unique constraint is the parameter
  \<open>unique_key\<close>; with the constraint, a second row bearing the same key makes the
  driver raise.
\<close>

definition insert_returning :: "bool \<Rightarrow> payment \<Rightarrow> world \<Rightarrow> (exn + payment) \<times> world" where
  "insert_returning unique_key row w =
     (if \<not> pg_connected w then (Inl PyRuntimeError, w)
      else if unique_key \<and> idempotency_key row \<in> set (map idempotency_key (payments_table w))
      then (Inl UniqueViolationError, w)
      else (Inr row, w\<lparr>payments_table := payments_table w @ [row]\<rparr>))"

section \<open>Liquidity: executing a quote (gateway/api/liquidity.py)\<close>

text \<open>
  The names bound at module level in gateway/api/liquidity.py: its imports, its classes,
  its constants and its functions. \<^verbatim>\<open>generate_uuidv7\<close> is imported inside the bodies of
  \<^verbatim>\<open>get_liquidity_quotes\<close> and \<^verbatim>\<open>_get_provider_quote\<close> only, which binds it as a
  local name of those two functions.
\<close>

definition liquidity_module_names :: "string list" where
  "liquidity_module_names =
     [''logging'', ''datetime'', ''timedelta'', ''Optional'', ''List'', ''Dict'', ''Any'',
      ''asyncio'', ''random'', ''APIRouter'', ''Query'', ''HTTPException'', ''BaseModel'',
      ''ErrorCode'', ''ExternalServiceError'', ''trace_operation'', ''redis_client'',
      ''nats_client'', ''logger'', ''router'', ''LiquidityQuote'', ''LiquidityQuoteRequest'',
      ''LiquidityQuoteResponse'', ''LIQUIDITY_PROVIDERS'', ''MOCK_RATES'',
      ''get_liquidity_quotes'', ''get_quote_details'', ''execute_quote'',
      ''_get_provider_quote'']"

text \<open>
  A name that a function body uses without binding it is looked up in the module's
  globals when the statement runs (the builtins hold no \<^verbatim>\<open>generate_uuidv7\<close>);
  an unbound name raises \<^verbatim>\<open>NameError\<close>.
\<close>

definition lookup_global :: "string list \<Rightarrow> string \<Rightarrow> exn + unit" where
  "lookup_global names name = (if name \<in> set names then Inr () else Inl (PyNameError name))"

text \<open>Truth value of a loaded key (\<^verbatim>\<open>if not quote_data\<close>).\<close>

fun truthy :: "kv_value \<Rightarrow> bool" where
  "truthy EmptyDict = False"
| "truthy FalsyJson = False"
| "truthy _ = True"

text \<open>\<^verbatim>\<open>LiquidityQuote(**quote_data)\<close>: the validation fails on anything but a quote.\<close>

fun LiquidityQuote_of :: "kv_value \<Rightarrow> exn + LiquidityQuote" where
  "LiquidityQuote_of (QuoteDict q) = Inr q"
| "LiquidityQuote_of _ = Inl PyValueError"

text \<open>
  What a call reads from outside: the clock in seconds and in milliseconds and the two
  random draws of an identifier.
\<close>

record clock_env =
  env_now :: int
  env_clock_ms :: int
  env_uuid4_a :: int
  env_uuid4_b :: int

text \<open>The body of the \<^verbatim>\<open>try\<close> block, run against a module namespace.\<close>

definition execute_quote_body ::
  "string list \<Rightarrow> 'a clock_env_scheme \<Rightarrow> string \<Rightarrow> world \<Rightarrow> (exn + execution_result) \<times> world" where
  "execute_quote_body names env qid w =
     (case redis_get (''quote:'' @ qid) w of
        Inl e \<Rightarrow> (Inl e, w)
      | Inr None \<Rightarrow> (Inl (HTTPException 404), w)
      | Inr (Some quote_data) \<Rightarrow>
          if \<not> truthy quote_data then (Inl (HTTPException 404), w)
          else
           (case LiquidityQuote_of quote_data of
              Inl e \<Rightarrow> (Inl e, w)
            | Inr quote \<Rightarrow>
                if env_now env > expires_at quote then (Inl (HTTPException 410), w)
                else
                 (case lookup_global names ''generate_uuidv7'' of
                    Inl e \<Rightarrow> (Inl e, w)
                  | Inr _ \<Rightarrow>
                     (case generate_uuidv7 (env_clock_ms env) (env_uuid4_a env) (env_uuid4_b env) of
                        Inl e \<Rightarrow> (Inl PyValueError, w)
                      | Inr new_id \<Rightarrow>
                         (let result = \<lparr>execution_id = new_id, executed_quote_id = qid,
                                         executed_rate = applied_rate quote,
                                         executed_at = env_now env,
                                         execution_status = ''EXECUTED''\<rparr>
                          in case redis_delete (''quote:'' @ qid) w of
                               (Inl e, w1) \<Rightarrow> (Inl e, w1)
                             | (Inr _, w1) \<Rightarrow>
                                (case publish ''liquidity.quote_executed'' (QuoteExecuted result) w1 of
                                   (Inl e, w2) \<Rightarrow> (Inl e, w2)
                                 | (Inr _, w2) \<Rightarrow> (Inr result, w2)))))))"

text \<open>
  The \<^verbatim>\<open>except\<close> clauses: an \<open>HTTPException\<close> passes, every other exception becomes
  \<open>ExternalServiceError\<close> of the service \<^verbatim>\<open>liquidity_service\<close>.
\<close>

definition execute_quote_in ::
  "string list \<Rightarrow> 'a clock_env_scheme \<Rightarrow> string \<Rightarrow> world \<Rightarrow> (exn + execution_result) \<times> world" where
  "execute_quote_in names env qid w =
     (case execute_quote_body names env qid w of
        (Inl (HTTPException s), w') \<Rightarrow> (Inl (HTTPException s), w')
      | (Inl e, w') \<Rightarrow> (Inl (ExternalServiceError ''liquidity_service''), w')
      | (Inr r, w') \<Rightarrow> (Inr r, w'))"

definition execute_quote ::
  "'a clock_env_scheme \<Rightarrow> string \<Rightarrow> world \<Rightarrow> (exn + execution_result) \<times> world" where
  "execute_quote = execute_quote_in liquidity_module_names"

text \<open>A quote that is stored and has not expired at time 100.\<close>

definition live_quote :: LiquidityQuote where
  "live_quote =
     \<lparr>quote_id = ''q1'', from_currency = ''USD'', to_currency = ''EUR'', quote_amount = 1000,
      mid_rate = 85 / 100, applied_rate = 84 / 100, quote_spread = 2 / 1000,
      source = ''Treasury Desk'', ttl_seconds = 30, expires_at = 130, utility_score = 9 / 10\<rparr>"

definition quote_world :: world where
  "quote_world =
     \<lparr>payments_table = [], kv = [''quote:q1'' \<mapsto> QuoteDict live_quote], published = [],
      handled = [], pg_connected = True, redis_connected = True, nats_connected = True\<rparr>"

definition at_100 :: clock_env where
  "at_100 = \<lparr>env_now = 100, env_clock_ms = 100000, env_uuid4_a = uuid4_zero,
             env_uuid4_b = uuid4_zero\<rparr>"

section \<open>Payments: initiating a payment (gateway/api/payments.py)\<close>

text \<open>
  The value of \<^verbatim>\<open>float(s)\<close> is a float. What the builtin accepts is not repository
  code: the conversion is the parameter \<open>float_of\<close> of the model, \<open>None\<close> standing
  for \<^verbatim>\<open>ValueError\<close>.
\<close>

fun le_zero :: "pyfloat \<Rightarrow> bool" where
  "le_zero (Finite r) = (r \<le> 0)"
| "le_zero NegInf = True"
| "le_zero PosInf = False"
| "le_zero NaN = False"

record PaymentInitiateRequest =
  req_amount :: string
  req_currency :: string
  req_debtor_account :: string
  req_creditor_account :: string
  req_payment_purpose :: "string option"
  req_settlement_method :: "string option"

record initiate_env = clock_env +
  env_uetr :: int
  env_trace_id :: "string option"

record CTRResponse =
  resp_transaction_id :: int
  resp_uetr :: int
  resp_status :: TransactionStatus
  resp_timestamp :: int
  resp_message :: "string option"

text \<open>
  The body of the \<^verbatim>\<open>try\<close> block. The metric recording after the publication changes
  none of the stores and is left out.
\<close>

definition initiate_payment_body ::
  "(string \<Rightarrow> pyfloat option) \<Rightarrow> bool \<Rightarrow> initiate_env \<Rightarrow> PaymentInitiateRequest \<Rightarrow> string
     \<Rightarrow> world \<Rightarrow> (exn + CTRResponse) \<times> world" where
  "initiate_payment_body float_of unique_key env request idem_key w =
     (case generate_uuidv7 (env_clock_ms env) (env_uuid4_a env) (env_uuid4_b env) of
        Inl e \<Rightarrow> (Inl PyValueError, w)
      | Inr transaction_id \<Rightarrow>
         (let uetr = env_uetr env; trace_id = env_trace_id env in
          if req_amount request = [] then (Inl (ValidationError ''amount''), w)
          else
           (case float_of (req_amount request) of
              None \<Rightarrow> (Inl PyValueError, w)
            | Some v \<Rightarrow>
               if le_zero v then (Inl (ValidationError ''amount''), w)
               else if length (req_currency request) \<noteq> 3
               then (Inl (ValidationError ''currency''), w)
               else
                (let payment_data =
                       \<lparr>row_transaction_id = transaction_id, row_uetr = uetr,
                        row_amount = req_amount request, row_currency = req_currency request,
                        row_debtor_account = req_debtor_account request,
                        row_creditor_account = req_creditor_account request,
                        row_payment_purpose = req_payment_purpose request,
                        row_settlement_method = req_settlement_method request,
                        row_status = INITIATED, row_created_at = env_now env,
                        row_trace_id = trace_id, idempotency_key = idem_key\<rparr>
                 in case insert_returning unique_key payment_data w of
                      (Inl e, w1) \<Rightarrow> (Inl e, w1)
                    | (Inr _, w1) \<Rightarrow>
                       (case publish ''payment.initiated'' (PaymentInitiated payment_data) w1 of
                          (Inl e, w2) \<Rightarrow> (Inl e, w2)
                        | (Inr _, w2) \<Rightarrow>
                           (Inr \<lparr>resp_transaction_id = transaction_id, resp_uetr = uetr,
                                 resp_status = INITIATED, resp_timestamp = env_now env,
                                 resp_message = Some ''Payment initiated successfully''\<rparr>,
                            w2))))))"

text \<open>
  The \<^verbatim>\<open>except\<close> clauses: a \<open>ValidationError\<close> passes, every other exception becomes
  \<open>PaymentError\<close> with the code \<open>INTERNAL_ERROR\<close>.
\<close>

definition initiate_payment ::
  "(string \<Rightarrow> pyfloat option) \<Rightarrow> bool \<Rightarrow> initiate_env \<Rightarrow> PaymentInitiateRequest \<Rightarrow> string
     \<Rightarrow> world \<Rightarrow> (exn + CTRResponse) \<times> world" where
  "initiate_payment float_of unique_key env request idem_key w =
     (case initiate_payment_body float_of unique_key env request idem_key w of
        (Inl (ValidationError field), w') \<Rightarrow> (Inl (ValidationError field), w')
      | (Inl e, w') \<Rightarrow> (Inl (PaymentError INTERNAL_ERROR), w')
      | (Inr r, w') \<Rightarrow> (Inr r, w'))"

text \<open>A request that passes both validations.\<close>

definition valid_request :: "(string \<Rightarrow> pyfloat option) \<Rightarrow> PaymentInitiateRequest \<Rightarrow> bool" where
  "valid_request float_of request =
     (req_amount request \<noteq> []
      \<and> (case float_of (req_amount request) of None \<Rightarrow> False | Some v \<Rightarrow> \<not> le_zero v)
      \<and> length (req_currency request) = 3)"

subsection \<open>Concrete requests\<close>

text \<open>
  A conversion for the examples: it reads the unsigned decimal literals
  \<^verbatim>\<open>digits\<close> and \<^verbatim>\<open>digits.digits\<close>, on which \<^verbatim>\<open>float\<close> returns the same number up
  to binary rounding, and fails on the empty string and on \<^verbatim>\<open>abc\<close> as \<^verbatim>\<open>float\<close>
  does.
\<close>

definition is_digit :: "char \<Rightarrow> bool" where
  "is_digit c = (CHR ''0'' \<le> c \<and> c \<le> CHR ''9'')"

definition digits_value :: "string \<Rightarrow> nat" where
  "digits_value ds = foldl (\<lambda>acc c. 10 * acc + (of_char c - 48)) 0 ds"

definition decimal_float :: "string \<Rightarrow> pyfloat option" where
  "decimal_float s =
     (let whole = takeWhile is_digit s; rest = dropWhile is_digit s in
      if whole = [] then None
      else if rest = [] then Some (Finite (real (digits_value whole)))
      else if hd rest = CHR ''.'' \<and> tl rest \<noteq> [] \<and> list_all is_digit (tl rest)
      then Some (Finite (real (digits_value whole)
                         + real (digits_value (tl rest)) / 10 ^ length (tl rest)))
      else None)"

definition usd_request :: PaymentInitiateRequest where
  "usd_request =
     \<lparr>req_amount = ''100.00'', req_currency = ''USD'', req_debtor_account = ''A'',
      req_creditor_account = ''B'', req_payment_purpose = Some ''TRADE'',
      req_settlement_method = Some ''PVP''\<rparr>"

definition first_env :: initiate_env where
  "first_env = \<lparr>env_now = 100, env_clock_ms = 100000, env_uuid4_a = uuid4_zero,
                env_uuid4_b = uuid4_zero, env_uetr = uuid4_zero, env_trace_id = None\<rparr>"

definition second_env :: initiate_env where
  "second_env = \<lparr>env_now = 101, env_clock_ms = 101000, env_uuid4_a = uuid4_zero,
                 env_uuid4_b = uuid4_zero, env_uetr = uuid4_zero + 1, env_trace_id = None\<rparr>"

definition key_K :: string where
  "key_K = ''550e8400-e29b-41d4-a716-446655440000''"

definition empty_world :: world where
  "empty_world =
     \<lparr>payments_table = [], kv = Map.empty, published = [], handled = [],
      pg_connected = True, redis_connected = True, nats_connected = True\<rparr>"

text \<open>The state after a first successful initiation under \<open>key_K\<close>.\<close>

definition world_with_K :: world where
  "world_with_K = snd (initiate_payment decimal_float True first_env usd_request key_K empty_world)"

section \<open>Idempotency middleware (gateway/middleware/idempotency.py)\<close>

text \<open>
  The inner application is a function from the request and the state to a response and a
  state. \<open>call_next\<close> hands the request to it and notes the request in \<open>handled\<close>.
\<close>

type_synonym handler = "request \<Rightarrow> world \<Rightarrow> response \<times> world"

definition call_next :: "handler \<Rightarrow> request \<Rightarrow> world \<Rightarrow> response \<times> world" where
  "call_next app req w = app req (w\<lparr>handled := handled w @ [req]\<rparr>)"

definition error_response :: "int \<Rightarrow> string \<Rightarrow> string \<Rightarrow> response" where
  "error_response status code message =
     \<lparr>status_code = status, body = ErrorContent code message, headers = []\<rparr>"

text \<open>
  Replaying a cached value: a dictionary answers with its \<^verbatim>\<open>status_code\<close> (200 when
  missing), its \<^verbatim>\<open>body\<close> and its \<^verbatim>\<open>headers\<close>; an empty dictionary and any other
  false value are skipped; on a true value that is no dictionary \<^verbatim>\<open>.get\<close> raises,
  which the surrounding \<^verbatim>\<open>try\<close> swallows.
\<close>

fun replay :: "kv_value \<Rightarrow> response option" where
  "replay (CachedResponse s h b) =
     Some \<lparr>status_code = (case s of Some c \<Rightarrow> c | None \<Rightarrow> 200),
           body = (case b of Some c \<Rightarrow> c | None \<Rightarrow> Null),
           headers = (case h of Some hs \<Rightarrow> hs | None \<Rightarrow> [])\<rparr>"
| "replay (QuoteDict q) = Some \<lparr>status_code = 200, body = Null, headers = []\<rparr>"
| "replay EmptyDict = None"
| "replay OtherJson = None"
| "replay FalsyJson = None"

definition cached_response :: "string \<Rightarrow> world \<Rightarrow> response option" where
  "cached_response cache_key w =
     (case redis_get cache_key w of
        Inl e \<Rightarrow> None
      | Inr None \<Rightarrow> None
      | Inr (Some v) \<Rightarrow> replay v)"

text \<open>
  \<^verbatim>\<open>dispatch\<close>. Whether \<^verbatim>\<open>uuid.UUID(idempotency_key)\<close> returns or raises
  \<^verbatim>\<open>ValueError\<close> is decided by the standard library: it is the parameter
  \<open>uuid_accepts\<close>. The \<^verbatim>\<open>cached_at\<close> stamp of the stored record is left out.
\<close>

definition missing_key :: "handler \<Rightarrow> request \<Rightarrow> world \<Rightarrow> response \<times> world" where
  "missing_key app req w =
     (if http_method req = ''POST''
      then (error_response 400 ''MISSING_IDEMPOTENCY_KEY''
              ''Idempotency-Key header is required for POST requests'', w)
      else call_next app req w)"

definition process_and_cache ::
  "handler \<Rightarrow> string \<Rightarrow> request \<Rightarrow> world \<Rightarrow> response \<times> world" where
  "process_and_cache app cache_key req w =
     (case call_next app req w of
        (resp, w1) \<Rightarrow>
          if 200 \<le> status_code resp \<and> status_code resp < 300 then
            (case redis_set cache_key
                    (CachedResponse (Some (status_code resp)) (Some (headers resp))
                       (Some (body resp))) w1 of
               (Inl e, w2) \<Rightarrow> (resp, w2)
             | (Inr _, w2) \<Rightarrow>
                 (\<lparr>status_code = status_code resp, body = body resp, headers = headers resp\<rparr>,
                  w2))
          else (resp, w1))"

definition dispatch ::
  "(string \<Rightarrow> bool) \<Rightarrow> handler \<Rightarrow> request \<Rightarrow> world \<Rightarrow> response \<times> world" where
  "dispatch uuid_accepts app req w =
     (if http_method req \<notin> set [''POST'', ''PUT'', ''PATCH''] then call_next app req w
      else
       (case idempotency_key_header req of
          None \<Rightarrow> missing_key app req w
        | Some k \<Rightarrow>
            if k = [] then missing_key app req w
            else if \<not> uuid_accepts k
            then (error_response 400 ''INVALID_IDEMPOTENCY_KEY''
                    ''Idempotency-Key must be a valid UUID'', w)
            else
             (let cache_key = ''idempotency:'' @ k in
              case cached_response cache_key w of
                Some resp \<Rightarrow> (resp, w)
              | None \<Rightarrow> process_and_cache app cache_key req w)))"

subsection \<open>Concrete requests\<close>

text \<open>
  The canonical text form of an identifier: 8-4-4-4-12 hexadecimal digits. \<^verbatim>\<open>uuid.UUID\<close>
  accepts every string of this form, whatever its version digit, and rejects
  \<^verbatim>\<open>not-a-uuid\<close>.
\<close>

definition is_hex :: "char \<Rightarrow> bool" where
  "is_hex c = ((CHR ''0'' \<le> c \<and> c \<le> CHR ''9'') \<or> (CHR ''a'' \<le> c \<and> c \<le> CHR ''f'')
               \<or> (CHR ''A'' \<le> c \<and> c \<le> CHR ''F''))"

definition canonical_uuid :: "string \<Rightarrow> bool" where
  "canonical_uuid s =
     (length s = 36
      \<and> list_all (\<lambda>i. if i \<in> set [8, 13, 18, 23] then s ! i = CHR ''-'' else is_hex (s ! i))
           [0 ..< 36])"

text \<open>The version digit of a canonical identifier is its 15th character.\<close>

definition version_digit :: "string \<Rightarrow> char" where
  "version_digit s = s ! 14"

definition version1_key :: string where
  "version1_key = ''00000000-0000-1000-8000-000000000000''"

definition ok_app :: handler where
  "ok_app req w = (\<lparr>status_code = 200, body = Content ''ok'', headers = []\<rparr>, w)"

definition post_request :: "string option \<Rightarrow> request" where
  "post_request key =
     \<lparr>http_method = ''POST'', http_path = ''/payments/initiate'', idempotency_key_header = key\<rparr>"

section \<open>Evaluating float arithmetic\<close>

text \<open>
  Rules that evaluate \<open>round_double\<close> on a numeral: the bit length of a binary
  numeral, digit by digit.
\<close>

lemma bitlen_numeral:
  "bitlen (numeral (Num.Bit0 n)) = bitlen (numeral n) + 1"
  "bitlen (numeral (Num.Bit1 n)) = bitlen (numeral n) + 1"
  "bitlen (numeral Num.One) = 1"
  "bitlen 1 = 1"
proof -
  show "bitlen (numeral (Num.Bit0 n)) = bitlen (numeral n) + 1"
    by (subst compute_bitlen) simp
  show "bitlen (numeral (Num.Bit1 n)) = bitlen (numeral n) + 1"
    by (subst compute_bitlen) simp
  show "bitlen 1 = 1" by (subst compute_bitlen) simp
  then show "bitlen (numeral Num.One) = 1" by simp
qed

lemmas float_eval = round_double_def floor_log2_def bitlen_numeral pow2_def
  round_half_even_def Let_def fsub_def fgt_def

section \<open>Properties of the netting engine\<close>

lemma keys_ensure_key: "map fst (ensure_key k a c ps) = add_key (map fst ps) k"
  by (auto simp: ensure_key_def add_key_def map_of_eq_None_iff image_iff)

lemma keys_map_entry: "map fst (AList.map_entry k f ps) = map fst ps"
  by (induction ps) auto

lemma keys_sub_amount: "map fst (sub_amount k d ps) = map fst ps"
  unfolding sub_amount_def by (rule keys_map_entry)

lemma keys_add_amount: "map fst (add_amount k d ps) = map fst ps"
  unfolding add_amount_def by (rule keys_map_entry)

lemma keys_net_step: "map fst (net_step ps t) = foldl add_key (map fst ps) (txn_keys t)"
  by (simp add: net_step_def Let_def keys_add_amount keys_sub_amount keys_ensure_key txn_keys_def)

lemma keys_foldl_net_step:
  "map fst (foldl net_step ps ts) = foldl add_key (map fst ps) (concat (map txn_keys ts))"
  by (induction ts arbitrary: ps) (simp_all add: keys_net_step)

lemma remdups_snoc: "remdups (ys @ [x]) = remdups (filter (\<lambda>y. y \<noteq> x) ys) @ [x]"
  by (induction ys) auto

lemma foldl_add_key_remdups:
  "distinct ks \<Longrightarrow> foldl add_key ks xs = ks @ rev (remdups (rev (filter (\<lambda>x. x \<notin> set ks) xs)))"
proof (induction xs arbitrary: ks)
  case Nil then show ?case by simp
next
  case (Cons x xs)
  show ?case
  proof (cases "x \<in> set ks")
    case True
    then have "add_key ks x = ks" by (simp add: add_key_def)
    then show ?thesis using Cons True by simp
  next
    case False
    have d: "distinct (ks @ [x])" using Cons.prems False by simp
    have "foldl add_key (ks @ [x]) xs = (ks @ [x]) @ rev (remdups (rev (filter (\<lambda>y. y \<notin> set (ks @ [x])) xs)))"
      by (rule Cons.IH [OF d])
    moreover have "remdups (rev (filter (\<lambda>y. y \<notin> set ks) xs) @ [x])
        = remdups (rev (filter (\<lambda>y. y \<notin> set (ks @ [x])) xs)) @ [x]"
      by (simp add: remdups_snoc rev_filter [symmetric] conj_commute)
    moreover have "add_key ks x = ks @ [x]" using False by (simp add: add_key_def)
    ultimately show ?thesis using False by simp
  qed
qed

lemma foldl_add_key_first_seen: "foldl add_key [] ks = first_seen ks"
  using foldl_add_key_remdups [of "[]" ks] by (simp add: first_seen_def)

lemma keys_accumulate:
  "map fst (accumulate_positions ts) = first_seen (concat (map txn_keys ts))"
  by (simp add: accumulate_positions_def keys_foldl_net_step foldl_add_key_first_seen)

lemma distinct_keys_accumulate: "distinct (map fst (accumulate_positions ts))"
  by (simp add: keys_accumulate first_seen_def)

lemma entries_map_entry:
  assumes "(k', p') \<in> set (AList.map_entry k f ps)"
  shows "\<exists>p. (k', p) \<in> set ps \<and> (p' = p \<or> p' = f p)"
  using assms by (induction ps) (auto split: if_splits)

lemma keyed_ensure_key: "keyed ps \<Longrightarrow> keyed (ensure_key (position_key a c) a c ps)"
  by (auto simp: keyed_def ensure_key_def)

lemma keyed_map_entry:
  assumes "keyed ps" "\<And>p. pos_account (f p) = pos_account p \<and> pos_currency (f p) = pos_currency p"
  shows "keyed (AList.map_entry k f ps)"
  unfolding keyed_def
proof (clarify)
  fix k' p' assume a: "(k', p') \<in> set (AList.map_entry k f ps)"
  from entries_map_entry [OF a] obtain p where p: "(k', p) \<in> set ps" and e: "p' = p \<or> p' = f p"
    by blast
  have "k' = position_key (pos_account p) (pos_currency p)"
    using assms(1) p by (auto simp: keyed_def)
  moreover have "pos_account p' = pos_account p" "pos_currency p' = pos_currency p"
    using e assms(2) by auto
  ultimately show "k' = position_key (pos_account p') (pos_currency p')" by simp
qed

lemma keyed_net_step: "keyed ps \<Longrightarrow> keyed (net_step ps t)"
  unfolding net_step_def Let_def sub_amount_def add_amount_def
  by (intro keyed_map_entry keyed_ensure_key) simp_all

lemma keyed_foldl: "keyed ps \<Longrightarrow> keyed (foldl net_step ps ts)"
  by (induction ts arbitrary: ps) (simp_all add: keyed_net_step)

lemma keyed_accumulate: "keyed (accumulate_positions ts)"
  unfolding accumulate_positions_def by (rule keyed_foldl) (simp add: keyed_def)

lemma np_key_emit: "np_key (emit_position p) = position_key (pos_account p) (pos_currency p)"
  by (simp add: np_key_def emit_position_def)

lemma keys_emitted:
  assumes "keyed ps"
  shows "map np_key (map emit_position (filter Q (map snd ps))) = map fst (filter (\<lambda>x. Q (snd x)) ps)"
  using assms by (induction ps) (auto simp: keyed_def np_key_emit)

lemma map_filter_distinct:
  assumes "distinct (map f xs)"
  shows "map f (filter Q xs) = filter (\<lambda>k. k \<in> set (map f (filter Q xs))) (map f xs)"
proof -
  have inj: "inj_on f (set xs)" using assms by (simp add: distinct_map)
  have "\<And>x. x \<in> set xs \<Longrightarrow> (f x \<in> f ` {y \<in> set xs. Q y}) = Q x"
    using inj by (auto dest: inj_onD)
  then have "filter (\<lambda>x. f x \<in> f ` {y \<in> set xs. Q y}) xs = filter Q xs"
    by (intro filter_cong) simp_all
  then show ?thesis by (simp add: filter_map comp_def)
qed

lemma np_keys_emitted:
  "map np_key (calculate_net_positions txns)
     = map fst (filter (\<lambda>x. fgt (fabs (pos_amount (snd x))) tolerance) (accumulate_positions txns))"
  unfolding calculate_net_positions_def by (rule keys_emitted [OF keyed_accumulate])

lemma distinct_np_keys: "distinct (map np_key (calculate_net_positions txns))"
  unfolding np_keys_emitted using distinct_keys_accumulate by (rule distinct_map_filter)


lemma tolerance_value: "tolerance = Finite (5764607523034235 / 2 ^ 59)"
  by (simp add: tolerance_def float_eval)



lemma key_injective_mono: "key_injective T \<Longrightarrow> S \<subseteq> T \<Longrightarrow> key_injective S"
  unfolding key_injective_def by blast







































lemmas net_eval = accumulate_positions_def net_step_def ensure_key_def sub_amount_def
  add_amount_def position_key_def usd_def Let_def

lemmas emit_eval = calculate_net_positions_def emit_position_def tolerance_value fgt_def

lemma cent_value: "round_double (1 / 100) = Finite (5764607523034235 / 2 ^ 59)"
  by (simp add: float_eval)





lemma accumulate_reversed_payment:
  "accumulate_positions reversed_payment =
     [(''B:USD'', \<lparr>pos_account = ''B'', pos_currency = ''USD'',
                   pos_amount = Finite (- 100)\<rparr>),
      (''A:USD'', \<lparr>pos_account = ''A'', pos_currency = ''USD'',
                   pos_amount = Finite 100\<rparr>)]"
proof -
  have 1: "fsub (Finite 0) (Finite 100) = Finite (- 100)"
    by (simp add: float_eval)
  have 2: "fadd (Finite 0) (Finite 100) = Finite 100"
    by (simp add: float_eval)
  have "accumulate_positions reversed_payment =
     [(''B:USD'', \<lparr>pos_account = ''B'', pos_currency = ''USD'',
                   pos_amount = fsub (Finite 0) (Finite 100)\<rparr>),
      (''A:USD'', \<lparr>pos_account = ''A'', pos_currency = ''USD'',
                   pos_amount = fadd (Finite 0) (Finite 100)\<rparr>)]"
    by (simp add: reversed_payment_def net_eval del: fadd.simps)
  then show ?thesis unfolding 1 2 .
qed

lemma calculate_reversed_payment:
  "calculate_net_positions reversed_payment =
     [\<lparr>np_account = ''B'', np_currency = ''USD'', np_amount = Finite 100,
       settlement_instruction = PAY\<rparr>,
      \<lparr>np_account = ''A'', np_currency = ''USD'', np_amount = Finite 100,
       settlement_instruction = RECEIVE\<rparr>]"
  by (simp add: accumulate_reversed_payment emit_eval)







lemma determined_scenario: "keys_determine_pairs scenario_payments"
  by (simp add: keys_determine_pairs_def key_injective_def batch_pairs_def txn_pairs_def
        scenario_payments_def usd_def position_key_def)

lemma determined_cent_payments: "keys_determine_pairs cent_payments"
  by (simp add: keys_determine_pairs_def key_injective_def batch_pairs_def txn_pairs_def
        cent_payments_def usd_def position_key_def)



lemma colliding_not_determined: "\<not> keys_determine_pairs colliding_payments"
  by (simp add: keys_determine_pairs_def key_injective_def batch_pairs_def txn_pairs_def
        colliding_payments_def position_key_def)


subsection \<open>Claim C1: netting conservation\<close>




subsection \<open>Claim C2: the algorithm against its reference definition\<close>




subsection \<open>Claim C7: order of the emitted positions\<close>

text \<open>
  C7, as stated, fails: the function never sorts. For the single payment (B to A,
  100 USD) the dictionary receives the debtor's key first, so the output is
  B: 100 PAY followed by A: 100 RECEIVE, which is descending in (account, currency).
\<close>

theorem net_positions_sorted_counterexample:
  "\<not> sorted (map np_sort_key (calculate_net_positions reversed_payment))"
  by (simp add: calculate_reversed_payment np_sort_key_def less_eq_prod_def)

text \<open>
  C7, amended: the emitted positions follow the order in which their keys
  \<^verbatim>\<open>account:currency\<close> first occur in the payment list (within one payment the debtor's key
  before the creditor's), and no key is emitted twice.
\<close>

theorem net_positions_in_first_seen_order:
  "map np_key (calculate_net_positions txns)
     = filter (\<lambda>k. k \<in> set (map np_key (calculate_net_positions txns)))
         (first_seen (concat (map txn_keys txns)))
   \<and> distinct (map np_key (calculate_net_positions txns))"
proof -
  let ?ps = "accumulate_positions txns"
  let ?Q = "\<lambda>x. fgt (fabs (pos_amount (snd x))) tolerance"
  have d: "distinct (map fst ?ps)" by (rule distinct_keys_accumulate)
  have e: "map np_key (calculate_net_positions txns) = map fst (filter ?Q ?ps)"
    by (rule np_keys_emitted)
  have "map fst (filter ?Q ?ps) = filter (\<lambda>k. k \<in> set (map fst (filter ?Q ?ps))) (map fst ?ps)"
    using d by (rule map_filter_distinct)
  then have 1: "map np_key (calculate_net_positions txns)
     = filter (\<lambda>k. k \<in> set (map np_key (calculate_net_positions txns)))
         (first_seen (concat (map txn_keys txns)))"
    unfolding e keys_accumulate .
  have 2: "distinct (map np_key (calculate_net_positions txns))"
    by (rule distinct_np_keys)
  from 1 2 show ?thesis by (rule conjI)
qed

theorem net_positions_in_first_seen_order_witness:
  "map np_key (calculate_net_positions reversed_payment)
     = filter (\<lambda>k. k \<in> set (map np_key (calculate_net_positions reversed_payment)))
         (first_seen (concat (map txn_keys reversed_payment)))
   \<and> distinct (map np_key (calculate_net_positions reversed_payment))
   \<and> map np_key (calculate_net_positions reversed_payment) = [''B:USD'', ''A:USD'']"
proof -
  have "map np_key (calculate_net_positions reversed_payment) = [''B:USD'', ''A:USD'']"
    by (simp add: calculate_reversed_payment np_key_def position_key_def)
  with net_positions_in_first_seen_order [of reversed_payment] show ?thesis by blast
qed

section \<open>Properties of the risk controller\<close>

lemma utc_weekday_weekend: "(utc_weekday now \<ge> 5) = (utc_weekday now = 5 \<or> utc_weekday now = 6)"
proof -
  have "utc_weekday now < 7" by (simp add: utc_weekday_def)
  then show ?thesis by auto
qed

lemma fetch_recent_count_prior:
  "(case fetch_recent_count payments now debtor of [] \<Rightarrow> False | r # _ \<Rightarrow> r > 10)
     = (payments_in_prior_24h payments now debtor > 10)"
  by (simp add: fetch_recent_count_def payments_in_prior_24h_def)

lemma assess_score_int:
  "risk_score (assess_transaction_risk payments now t) =
     real_of_int ((if amount t > 100000 then 20 else 0)
       + (if currency t \<in> {''AED'', ''INR'', ''CNY''} then 15 else 0)
       + (if payments_in_prior_24h payments now (debtor_account t) > 10 then 10 else 0)
       + (if utc_weekday now = 5 \<or> utc_weekday now = 6 then 5 else 0))"
  unfolding assess_transaction_risk_def Let_def fetch_recent_count_prior utc_weekday_weekend
    high_risk_currencies_def
  by simp

lemma assess_action:
  "recommended_action (assess_transaction_risk payments now t) =
     (if risk_score (assess_transaction_risk payments now t) < 20 then ''APPROVE''
      else if risk_score (assess_transaction_risk payments now t) < 40 then ''ENHANCED_MONITORING''
      else ''MANUAL_REVIEW'')"
  unfolding assess_transaction_risk_def Let_def
  by (simp add: not_less)

lemma d1_count: "payments_in_prior_24h d1_payments saturday ''D1'' = 12"
  by (simp add: payments_in_prior_24h_def d1_payments_def d1_row_def saturday_def)

lemma saturday_weekday: "utc_weekday saturday = 5"
  by (simp add: utc_weekday_def saturday_def)

subsection \<open>Claim C3: the transaction risk score\<close>

text \<open>
  C3: the risk score of a payment row is 20 for an amount above 100000, plus 15 for a
  currency among AED, INR, CNY, plus 10 when the debtor has more than 10 payments in the
  prior 24 hours, plus 5 when the current UTC weekday is Saturday or Sunday; the
  recommended action is APPROVE below 20, ENHANCED_MONITORING from 20 and below 40, and
  MANUAL_REVIEW from 40. A payment of 250000 AED whose debtor made 12 payments in the
  prior 24 hours, assessed on a Saturday, scores 50 with MANUAL_REVIEW.
\<close>

theorem assess_transaction_risk_score:
  "risk_score (assess_transaction_risk payments now t) =
       (if amount t > 100000 then 20 else 0)
     + (if currency t \<in> {''AED'', ''INR'', ''CNY''} then 15 else 0)
     + (if payments_in_prior_24h payments now (debtor_account t) > 10 then 10 else 0)
     + (if utc_weekday now = 5 \<or> utc_weekday now = 6 then 5 else 0)
   \<and> recommended_action (assess_transaction_risk payments now t) =
       (if risk_score (assess_transaction_risk payments now t) < 20 then ''APPROVE''
        else if risk_score (assess_transaction_risk payments now t) < 40
             then ''ENHANCED_MONITORING''
        else ''MANUAL_REVIEW'')
   \<and> risk_score (assess_transaction_risk d1_payments saturday d1_row) = 50
   \<and> recommended_action (assess_transaction_risk d1_payments saturday d1_row) = ''MANUAL_REVIEW''"
proof (intro conjI)
  show "risk_score (assess_transaction_risk payments now t) =
       (if amount t > 100000 then 20 else 0)
     + (if currency t \<in> {''AED'', ''INR'', ''CNY''} then 15 else 0)
     + (if payments_in_prior_24h payments now (debtor_account t) > 10 then 10 else 0)
     + (if utc_weekday now = 5 \<or> utc_weekday now = 6 then 5 else 0)"
    unfolding assess_score_int by simp
  show "recommended_action (assess_transaction_risk payments now t) =
       (if risk_score (assess_transaction_risk payments now t) < 20 then ''APPROVE''
        else if risk_score (assess_transaction_risk payments now t) < 40
             then ''ENHANCED_MONITORING''
        else ''MANUAL_REVIEW'')"
    by (rule assess_action)
  show s: "risk_score (assess_transaction_risk d1_payments saturday d1_row) = 50"
  proof -
    have "debtor_account d1_row = ''D1''" "currency d1_row = ''AED''" "amount d1_row = 250000"
      by (simp_all add: d1_row_def)
    then show ?thesis
      by (simp add: assess_score_int d1_count saturday_weekday)
  qed
  show "recommended_action (assess_transaction_risk d1_payments saturday d1_row) = ''MANUAL_REVIEW''"
    unfolding assess_action s by simp
qed

theorem assess_transaction_risk_score_witness:
  "risk_score (assess_transaction_risk d1_payments saturday d1_row) = 20 + 15 + 10 + 5
   \<and> recommended_action (assess_transaction_risk d1_payments saturday d1_row) = ''MANUAL_REVIEW''"
  using assess_transaction_risk_score [of d1_payments saturday d1_row] by simp

subsection \<open>The system risk metrics\<close>

lemma sequence_err_length: "sequence_err rs = Inr xs \<Longrightarrow> length xs = length rs"
proof (induction rs arbitrary: xs)
  case Nil then show ?case by simp
next
  case (Cons r rs)
  then show ?case
    by (cases r; cases "sequence_err rs") auto
qed

lemma and_then_cong_length:
  assumes "\<And>xs. r = Inr xs \<Longrightarrow> f xs = g xs"
  shows "and_then r f = and_then r g"
  using assms by (cases r) simp_all

lemma variance_eq:
  "variance py_sum py_pow xs =
     and_then (mean py_sum xs) (\<lambda>m.
     and_then (sequence_err (map (\<lambda>x. py_pow (fsub x m) (Finite 2)) xs)) (\<lambda>squares.
       truediv_int (py_sum squares) (int (length xs))))"
  unfolding variance_def
proof (rule and_then_cong_length, rule and_then_cong_length)
  fix m sq assume "sequence_err (map (\<lambda>x. py_pow (fsub x m) (Finite 2)) xs) = Inr sq"
  then have "length sq = length xs" using sequence_err_length by fastforce
  then show "mean py_sum sq = truediv_int (py_sum sq) (int (length xs))" by (simp add: mean_def)
qed

lemma mode_of_cache_eq:
  "(case c of Some d \<Rightarrow> RiskMode_of (case d of Some s \<Rightarrow> s | None \<Rightarrow> ''Medium'')
            | None \<Rightarrow> Inr MEDIUM) = mode_of_cache c"
  by (simp add: mode_of_cache_def RiskMode_of_def split: option.splits)

lemma score_breaches:
  "(let r0 = (0 :: int);
        r1 = (if fgt a (spread_threshold th) then r0 + 25 else r0);
        r2 = (if fgt d (deviation_threshold th) then r1 + 25 else r1);
        r3 = (if fgt l (Finite (real_of_int (latency_threshold_ms th))) then r2 + 25 else r2);
        r4 = (if fgt v (volume_threshold_usd th) then r3 + 25 else r3)
    in real_of_int r4) = 25 * real (breaches th a d l v)"
  by (simp add: Let_def breaches_def)

lemma breaches_range:
  "Finite (25 * real (breaches th a d l v)) \<in> {Finite 0, Finite 25, Finite 50, Finite 75, Finite 100}"
  by (simp add: breaches_def)

lemma and_then_assoc: "and_then (and_then r f) g = and_then r (\<lambda>x. and_then (f x) g)"
  by (cases r) simp_all

lemma dev_eq:
  assumes "mean py_sum xs = Inr m"
  shows "(if 1 < length xs then
            and_then (sequence_err (map (\<lambda>s. py_pow (fsub s m) (Finite 2)) xs)) (\<lambda>squares.
            and_then (truediv_int (py_sum squares) (int (length xs))) (\<lambda>variance.
            if fgt m (Finite 0)
            then and_then (py_pow variance (round_double (1 / 2))) (\<lambda>root. truediv root m)
            else Inr (Finite 0)))
          else Inr (round_double (5 / 100))) = spread_deviation py_sum py_pow xs"
proof (cases "1 < length xs")
  case False
  then show ?thesis by (simp add: spread_deviation_def)
next
  case True
  then have n: "\<not> length xs < 2" by simp
  show ?thesis
    unfolding spread_deviation_def variance_eq stddev_of_def assms and_then.simps and_then_assoc
    using True n by (simp only: if_True if_False)
qed

lemma calculate_risk_metrics_eq:
  "calculate_risk_metrics py_sum py_pow quotes now c =
     (let rq = fetch_recent_quotes quotes now;
          spreads = map q_spread rq;
          volume = py_sum (map q_amount rq)
      in if rq = [] then Inr default_metrics
         else
           and_then (mean py_sum spreads) (\<lambda>spread.
           and_then (mean_int (map q_latency_ms rq)) (\<lambda>latency.
           and_then (spread_deviation py_sum py_pow spreads) (\<lambda>deviation.
           and_then (mode_of_cache c) (\<lambda>mode.
           and_then (py_int latency) (\<lambda>latency_ms.
             Inr \<lparr>m_spread = spread, m_depth = volume, m_deviation = deviation,
                  m_latency_ms = latency_ms, m_volume_24h_usd = volume,
                  m_risk_score = Finite (25 * real (breaches (RISK_THRESHOLDS mode) spread
                     deviation latency volume))\<rparr>))))))"
proof (cases "fetch_recent_quotes quotes now = []")
  case True
  then show ?thesis by (simp add: calculate_risk_metrics_def Let_def)
next
  case False
  define sp where "sp = map q_spread (fetch_recent_quotes quotes now)"
  define lat where "lat = map q_latency_ms (fetch_recent_quotes quotes now)"
  define am where "am = map q_amount (fetch_recent_quotes quotes now)"
  have ne: "sp \<noteq> []" "lat \<noteq> []" using False by (simp_all add: sp_def lat_def)
  show ?thesis
    unfolding calculate_risk_metrics_def Let_def sp_def [symmetric] lat_def [symmetric]
      am_def [symmetric]
    apply (simp only: False if_False ne not_False_eq_True if_True mean_def [symmetric]
        mean_int_def [symmetric])
    apply (cases "mean py_sum sp")
     apply (simp only: and_then.simps)
    apply (simp only: and_then.simps dev_eq mode_of_cache_eq score_breaches [unfolded Let_def])
    done
qed


lemma and_then_Inr: "(and_then r f = Inr y) = (\<exists>x. r = Inr x \<and> f x = Inr y)"
  by (cases r) simp_all

lemma returned_metrics:
  assumes "calculate_risk_metrics py_sum py_pow quotes now c = Inr m"
    and "fetch_recent_quotes quotes now \<noteq> []"
  shows "\<exists>spread latency deviation mode.
           mean py_sum (map q_spread (fetch_recent_quotes quotes now)) = Inr spread
         \<and> mean_int (map q_latency_ms (fetch_recent_quotes quotes now)) = Inr latency
         \<and> spread_deviation py_sum py_pow (map q_spread (fetch_recent_quotes quotes now))
             = Inr deviation
         \<and> mode_of_cache c = Inr mode
         \<and> m_spread m = spread \<and> m_deviation m = deviation
         \<and> m_risk_score m = Finite (25 * real (breaches (RISK_THRESHOLDS mode) spread deviation
               latency (py_sum (map q_amount (fetch_recent_quotes quotes now)))))"
  using assms unfolding calculate_risk_metrics_eq Let_def
  by (auto simp: and_then_Inr)

lemma default_breaches:
  "breaches (RISK_THRESHOLDS MEDIUM) (m_spread default_metrics) (m_deviation default_metrics)
     (Finite (real_of_int (m_latency_ms default_metrics))) (m_volume_24h_usd default_metrics) = 0"
proof -
  have 1: "\<not> fgt (round_double (2 / 1000)) (round_double (5 / 1000))"
    by (simp add: float_eval)
  have 2: "\<not> fgt (round_double (5 / 100)) (round_double (10 / 100))"
    by (simp add: float_eval)
  have 3: "\<not> fgt (Finite (real_of_int 80)) (Finite (real_of_int 200))"
    by (simp add: fgt_def)
  have 4: "\<not> fgt (Finite 5000000) (Finite 5000000)"
    by (simp add: fgt_def)
  show ?thesis
    unfolding breaches_def default_metrics_def RISK_THRESHOLDS.simps RiskThresholds.simps
      RiskMetrics.simps
    by (simp only: 1 2 3 4 if_False add_0_right)
qed

lemma recent_steady: "fetch_recent_quotes steady_quotes 3000 = steady_quotes"
  by (simp add: fetch_recent_quotes_def steady_quotes_def)

lemma steady_spreads:
  "map q_spread steady_quotes = [round_double (2 / 1000), round_double (2 / 1000)]"
  unfolding steady_quotes_def by simp

lemma spread_value: "round_double (2 / 1000) = Finite (1152921504606847 / 2 ^ 59)"
  by (simp add: float_eval)

lemma steady_mean:
  "mean left_sum (map q_spread steady_quotes) = Inr (Finite (1152921504606847 / 2 ^ 59))"
  unfolding steady_spreads spread_value
  by (simp add: mean_def left_sum_def truediv_int_def int_to_float_def truediv_def float_eval)

lemma steady_latency: "mean_int (map q_latency_ms steady_quotes) = Inr (Finite (601 / 2))"
  by (simp add: steady_quotes_def mean_int_def int_truediv_def float_eval)

lemma steady_volume: "left_sum (map q_amount steady_quotes) = Finite 6000000"
  by (simp add: steady_quotes_def left_sum_def float_eval)

lemma steady_variance:
  "variance left_sum rounded_pow (map q_spread steady_quotes) = Inr (Finite 0)"
proof -
  have z: "fsub (Finite (1152921504606847 / 2 ^ 59)) (Finite (1152921504606847 / 2 ^ 59)) = Finite 0"
    by (simp add: fsub_def round_double_def)
  have p: "rounded_pow (Finite 0) (Finite 2) = Inr (Finite 0)"
    by (simp add: rounded_pow_def round_double_def)
  have m: "mean left_sum [Finite 0, Finite 0] = Inr (Finite 0)"
    by (simp add: mean_def left_sum_def truediv_int_def int_to_float_def truediv_def float_eval)
  show ?thesis
    unfolding variance_def steady_mean and_then.simps
    unfolding steady_spreads spread_value list.map z p sequence_err.simps and_then.simps m
    by (rule refl)
qed

lemma steady_deviation:
  "spread_deviation left_sum rounded_pow (map q_spread steady_quotes) = Inr (Finite 0)"
proof -
  have len: "\<not> length (map q_spread steady_quotes) < 2" by (simp add: steady_quotes_def)
  have pos: "fgt (Finite (1152921504606847 / 2 ^ 59)) (Finite 0)" by (simp add: fgt_def)
  have r: "stddev_of rounded_pow (Finite 0) = Inr (Finite 0)"
    by (simp add: stddev_of_def rounded_pow_def float_eval)
  have d: "truediv (Finite 0) (Finite (1152921504606847 / 2 ^ 59)) = Inr (Finite 0)"
    by (simp add: truediv_def round_double_def)
  show ?thesis
    unfolding spread_deviation_def steady_mean steady_variance and_then.simps
    by (simp only: len pos r d if_True if_False and_then.simps)
qed

lemma steady_breaches:
  "breaches (RISK_THRESHOLDS MEDIUM) (Finite (1152921504606847 / 2 ^ 59)) (Finite 0)
     (Finite (601 / 2)) (Finite 6000000) = 2"
proof -
  have 1: "\<not> fgt (Finite (1152921504606847 / 2 ^ 59)) (round_double (5 / 1000))"
    by (simp add: float_eval)
  have 2: "\<not> fgt (Finite 0) (round_double (10 / 100))"
    by (simp add: float_eval)
  have 3: "fgt (Finite (601 / 2)) (Finite (real_of_int 200))"
    by (simp add: fgt_def)
  have 4: "fgt (Finite 6000000) (Finite 5000000)"
    by (simp add: fgt_def)
  show ?thesis
    unfolding breaches_def RISK_THRESHOLDS.simps RiskThresholds.simps
    by (simp only: 1 2 3 4 if_False if_True)
qed

lemma replicate_18:
  "replicate 18 x = [x, x, x, x, x, x, x, x, x, x, x, x, x, x, x, x, x, x]"
  by (simp add: eval_nat_numeral)

lemma even_spreads:
  "map q_spread even_quotes = replicate 18 (Finite (5764607523034235 / 2 ^ 60))"
proof -
  have "round_double (5 / 1000) = Finite (5764607523034235 / 2 ^ 60)"
    by (simp add: float_eval)
  then show ?thesis unfolding even_quotes_def map_replicate by simp
qed

lemma even_sum:
  "left_sum (replicate 18 (Finite (5764607523034235 / 2 ^ 60)))
     = Finite (6485183463413515 / 2 ^ 56)"
  unfolding replicate_18 by (simp add: left_sum_def float_eval)

lemma even_mean:
  "mean left_sum (map q_spread even_quotes) = Inr (Finite (1441151880758559 / 2 ^ 58))"
proof -
  have "truediv_int (Finite (6485183463413515 / 2 ^ 56)) 18
          = Inr (Finite (1441151880758559 / 2 ^ 58))"
    by (simp add: truediv_int_def int_to_float_def truediv_def float_eval)
  then show ?thesis
    unfolding mean_def even_spreads even_sum length_replicate by simp
qed

lemma even_breach:
  "fgt (Finite (1441151880758559 / 2 ^ 58)) (spread_threshold (RISK_THRESHOLDS MEDIUM))"
  by (simp add: float_eval)

lemma breaches_spread:
  "fgt a (spread_threshold th) \<Longrightarrow>
     Finite (25 * real (breaches th a d l v)) \<in> {Finite 25, Finite 50, Finite 75, Finite 100}"
  by (simp add: breaches_def)

text \<open>
  Eighteen quotes of spread 0.005 under the mode Medium: the running sum of the spreads
  divided by 18 is \<open>0.005000000000000001\<close>, above the threshold 0.005, so a returned
  score counts that breach.
\<close>

lemma even_quotes_score:
  "case calculate_risk_metrics left_sum py_pow even_quotes 3000 None of
     Inl e \<Rightarrow> True
   | Inr m \<Rightarrow> m_spread m = Finite (1441151880758559 / 2 ^ 58)
              \<and> m_risk_score m \<in> {Finite 25, Finite 50, Finite 75, Finite 100}"
proof (cases "calculate_risk_metrics left_sum py_pow even_quotes 3000 None")
  case (Inl e)
  then show ?thesis by simp
next
  case (Inr m)
  have rq: "fetch_recent_quotes even_quotes 3000 = even_quotes"
    by (simp add: fetch_recent_quotes_def even_quotes_def)
  have ne: "fetch_recent_quotes even_quotes 3000 \<noteq> []"
    unfolding rq by (simp add: even_quotes_def)
  from returned_metrics [OF Inr ne] obtain spread latency deviation mode
    where s: "mean left_sum (map q_spread even_quotes) = Inr spread"
      and md: "mode_of_cache None = Inr mode"
      and ms: "m_spread m = spread"
      and sc: "m_risk_score m = Finite (25 * real (breaches (RISK_THRESHOLDS mode) spread
                 deviation latency (left_sum (map q_amount even_quotes))))"
    unfolding rq by blast
  have spread: "spread = Finite (1441151880758559 / 2 ^ 58)" using s unfolding even_mean by simp
  have mode: "mode = MEDIUM" using md by (simp add: mode_of_cache_def)
  have "m_risk_score m \<in> {Finite 25, Finite 50, Finite 75, Finite 100}"
    unfolding sc mode spread by (rule breaches_spread [OF even_breach])
  then show ?thesis using Inr ms spread by simp
qed

subsection \<open>Claim C8: the system risk metrics\<close>

text \<open>
  C8, as stated, fails for an hour without quotes: the function returns its fixed default
  record, whose risk score is 25, although none of the default values breaches a threshold
  of the mode Medium (0.002 against 0.005, 0.05 against 0.10, 80 against 200, 5000000
  against 5000000); the score is not 25 times the number of breaches.
\<close>

theorem risk_metrics_empty_hour_counterexample:
  "calculate_risk_metrics left_sum rounded_pow [] 0 None = Inr default_metrics
   \<and> m_risk_score default_metrics
       \<noteq> Finite (25 * real (breaches (RISK_THRESHOLDS MEDIUM) (m_spread default_metrics)
                  (m_deviation default_metrics)
                  (Finite (real_of_int (m_latency_ms default_metrics)))
                  (m_volume_24h_usd default_metrics)))"
  unfolding default_breaches
  by (simp add: calculate_risk_metrics_def fetch_recent_quotes_def default_metrics_def)

text \<open>
  C8, amended: when no quote was recorded in the last hour the result is the fixed default
  record (spread 0.002, deviation 0.05, latency 80, volume 5000000, risk score 25).
  Otherwise the function raises when a division or a power is out of range or when the
  cached mode names no mode, and else returns, in float arithmetic with the interpreter's
  \<^verbatim>\<open>sum\<close> and \<^verbatim>\<open>**\<close>: as spread the mean of the spreads; as deviation 0.05 for
  fewer than two samples, and otherwise the square root of the mean squared distance of
  the spreads from their mean, divided by that mean, when the mean is positive, and 0
  when it is not; and as risk score 25 times the number of thresholds of the current mode
  breached by the mean spread, the deviation, the mean latency and the total volume. In
  every case a returned risk score is one of 0, 25, 50, 75, 100.
\<close>

theorem risk_metrics_closed_form:
  "calculate_risk_metrics py_sum py_pow quotes now c =
     (let rq = fetch_recent_quotes quotes now;
          spreads = map q_spread rq;
          volume = py_sum (map q_amount rq)
      in if rq = [] then Inr default_metrics
         else
           and_then (mean py_sum spreads) (\<lambda>spread.
           and_then (mean_int (map q_latency_ms rq)) (\<lambda>latency.
           and_then (spread_deviation py_sum py_pow spreads) (\<lambda>deviation.
           and_then (mode_of_cache c) (\<lambda>mode.
           and_then (py_int latency) (\<lambda>latency_ms.
             Inr \<lparr>m_spread = spread, m_depth = volume, m_deviation = deviation,
                  m_latency_ms = latency_ms, m_volume_24h_usd = volume,
                  m_risk_score = Finite (25 * real (breaches (RISK_THRESHOLDS mode) spread
                     deviation latency volume))\<rparr>))))))
   \<and> (case calculate_risk_metrics py_sum py_pow quotes now c of
         Inl e \<Rightarrow> True
       | Inr m \<Rightarrow> m_risk_score m \<in> {Finite 0, Finite 25, Finite 50, Finite 75, Finite 100})"
proof (rule conjI)
  show "(case calculate_risk_metrics py_sum py_pow quotes now c of
         Inl e \<Rightarrow> True
       | Inr m \<Rightarrow> m_risk_score m \<in> {Finite 0, Finite 25, Finite 50, Finite 75, Finite 100})"
  proof (cases "calculate_risk_metrics py_sum py_pow quotes now c")
    case (Inl e)
    then show ?thesis by simp
  next
    case (Inr m)
    show ?thesis
    proof (cases "fetch_recent_quotes quotes now = []")
      case True
      then have "m = default_metrics" using Inr by (simp add: calculate_risk_metrics_def)
      then show ?thesis using Inr by (simp add: default_metrics_def)
    next
      case False
      from returned_metrics [OF Inr False] obtain th a d l v
        where "m_risk_score m = Finite (25 * real (breaches th a d l v))" by blast
      then show ?thesis using Inr breaches_range [of th a d l v] by simp
    qed
  qed
qed (rule calculate_risk_metrics_eq)

text \<open>
  Two quotes of spread 0.002 and amount 3000000 with latencies 300 and 301, no cached
  mode: latency and volume breach the thresholds of Medium, the score is 50.
\<close>

theorem risk_metrics_closed_form_witness:
  "calculate_risk_metrics left_sum rounded_pow steady_quotes 3000 None =
     Inr \<lparr>m_spread = Finite (1152921504606847 / 2 ^ 59), m_depth = Finite 6000000,
          m_deviation = Finite 0, m_latency_ms = 300,
          m_volume_24h_usd = Finite 6000000, m_risk_score = Finite 50\<rparr>"
proof -
  have ne: "(steady_quotes = []) = False" by (simp add: steady_quotes_def)
  have mode: "mode_of_cache None = Inr MEDIUM" by (simp add: mode_of_cache_def)
  have lat: "py_int (Finite (601 / 2)) = Inr 300" by simp
  show ?thesis
    using risk_metrics_closed_form [of left_sum rounded_pow steady_quotes 3000 None]
    unfolding Let_def recent_steady ne if_False steady_mean steady_latency steady_volume
      steady_deviation mode lat and_then.simps steady_breaches
    by simp
qed

section \<open>Properties of the time-ordered identifiers\<close>

lemma and_masks:
  "x AND 0xFFFFFFFF = take_bit 32 (x::int)"
  "x AND 0xFFFF = take_bit 16 (x::int)"
  "x AND 0xFFF = take_bit 12 (x::int)"
  "x AND 0x3FFFFFFFFFFFFFFF = take_bit 62 (x::int)"
  by (simp_all add: take_bit_eq_mask mask_eq_exp_minus_1)

lemma timestamp_halves:
  "push_bit 96 (take_bit 32 (drop_bit 16 ts)) OR push_bit 80 (take_bit 16 ts)
     = push_bit 80 (take_bit 48 (ts::int))"
proof -
  have "take_bit 48 ts = take_bit 16 ts OR push_bit 16 (take_bit 32 (drop_bit 16 ts))"
    by (rule bit_eqI) (auto simp: bit_simps)
  then show ?thesis
    by (simp add: push_bit_or ac_simps)
qed

lemma uuid_int_layout:
  "uuid_int ts a b = rfc_layout ts a b"
proof -
  have "uuid_int ts a b =
          push_bit 80 (take_bit 48 ts) OR push_bit 76 7 OR push_bit 64 (take_bit 12 a)
            OR push_bit 62 2 OR take_bit 62 b"
    unfolding uuid_int_def Let_def and_masks
    by (simp only: or.assoc [symmetric] timestamp_halves)
  also have "\<dots> = rfc_layout ts a b"
    unfolding rfc_layout_def concat_bit_def
    by (simp add: push_bit_or ac_simps)
  finally show ?thesis .
qed


lemma rfc_layout_sum:
  "rfc_layout ts a b =
     take_bit 48 ts * 2 ^ 80 + 7 * 2 ^ 76 + take_bit 12 a * 2 ^ 64 + 2 * 2 ^ 62 + take_bit 62 b"
  unfolding rfc_layout_def
  by (simp add: concat_bit_eq push_bit_eq_mult algebra_simps)

lemma described_layout_sum:
  "described_layout ts a b =
     take_bit 48 ts * 2 ^ 80 + take_bit 12 a * 2 ^ 68 + 7 * 2 ^ 64 + take_bit 62 b * 2 ^ 2 + 2"
  unfolding described_layout_def
  by (simp add: concat_bit_eq push_bit_eq_mult algebra_simps)

lemma uuid_int_bounds: "0 \<le> uuid_int ts a b \<and> uuid_int ts a b < 2 ^ 128"
proof -
  have t: "0 \<le> take_bit 48 ts" "take_bit 48 ts < 2 ^ 48"
    by (simp, rule take_bit_int_less_exp)
  have ra: "0 \<le> take_bit 12 a" "take_bit 12 a < 2 ^ 12"
    by (simp, rule take_bit_int_less_exp)
  have rb: "0 \<le> take_bit 62 b" "take_bit 62 b < 2 ^ 62"
    by (simp, rule take_bit_int_less_exp)
  show ?thesis
    unfolding uuid_int_layout rfc_layout_sum using t ra rb by simp
qed

lemma uuid_int_top: "drop_bit 80 (uuid_int ts a b) = take_bit 48 ts"
  unfolding uuid_int_layout rfc_layout_def
  by (rule bit_eqI) (auto simp: bit_simps)

lemma described_layout_fields:
  "take_bit 2 (described_layout ts ra rb) = 2
   \<and> take_bit 4 (drop_bit 64 (described_layout ts ra rb)) = 7"
proof
  show "take_bit 2 (described_layout ts ra rb) = 2"
    unfolding described_layout_def by (simp add: take_bit_concat_bit_eq)
  have "drop_bit 64 (described_layout ts ra rb) = concat_bit 4 7 (concat_bit 12 ra (take_bit 48 ts))"
    unfolding described_layout_def by (rule bit_eqI) (auto simp: bit_simps)
  then show "take_bit 4 (drop_bit 64 (described_layout ts ra rb)) = 7"
    by (simp add: take_bit_concat_bit_eq)
qed

lemma generate_uuidv7_layout: "generate_uuidv7 ts a b = Inr (rfc_layout ts a b)"
  using uuid_int_bounds [of ts a b]
  by (simp add: generate_uuidv7_def UUID_of_int_def uuid_int_layout)

lemma layout_order_arith:
  fixes ts ts' x y x' y' :: int
  assumes "ts + 1 \<le> ts'" "x < 2 ^ 12" "y < 2 ^ 62" "0 \<le> x'" "0 \<le> y'"
  shows "ts * 2 ^ 80 + 7 * 2 ^ 76 + x * 2 ^ 64 + 2 * 2 ^ 62 + y
           < ts' * 2 ^ 80 + 7 * 2 ^ 76 + x' * 2 ^ 64 + 2 * 2 ^ 62 + y'"
  using assms by simp

lemma rfc_layout_mono:
  assumes "0 \<le> ts" "ts < ts'" "ts' < 2 ^ 48"
  shows "rfc_layout ts a b < rfc_layout ts' a' b'"
proof -
  have t: "take_bit 48 ts = ts" "take_bit 48 ts' = ts'"
    using assms by (simp_all add: take_bit_int_eq_self)
  have 1: "ts + 1 \<le> ts'" using assms(2) by simp
  have 2: "take_bit 12 a < 2 ^ 12" by (rule take_bit_int_less_exp)
  have 3: "take_bit 62 b < 2 ^ 62" by (rule take_bit_int_less_exp)
  have 4: "0 \<le> take_bit 12 a'" by simp
  have 5: "0 \<le> take_bit 62 b'" by simp
  show ?thesis
    unfolding rfc_layout_sum t by (rule layout_order_arith [OF 1 2 3 4 5])
qed

subsection \<open>Claim C9: layout and order of the identifiers\<close>

text \<open>
  C9, as stated, fails twice. The described layout puts the variant 10 in the two least
  significant bits and the version 7 in bits 64 to 67; the code puts the version in bits
  76 to 79 and the variant in bits 62 and 63. At timestamp 0 with all random bits zero the
  identifier is \<open>7 * 2 ^ 76 + 2 * 2 ^ 62\<close>: its two lowest bits are 00 and its bits 64
  to 67 are 0000. And two identifiers of the same timestamp are ordered by their random
  bits: with the 12-bit random field 1 and then 0, the first is larger than the second
  although the timestamps do not decrease.
\<close>

theorem uuidv7_layout_counterexample:
  "generate_uuidv7 0 uuid4_zero uuid4_zero = Inr (7 * 2 ^ 76 + 2 * 2 ^ 62)
   \<and> take_bit 2 (7 * 2 ^ 76 + 2 * 2 ^ 62 :: int) \<noteq> 2
   \<and> take_bit 4 (drop_bit 64 (7 * 2 ^ 76 + 2 * 2 ^ 62 :: int)) \<noteq> 7
   \<and> generate_uuidv7 0 (uuid4_zero + 1) uuid4_zero = Inr (7 * 2 ^ 76 + 2 ^ 64 + 2 * 2 ^ 62)
   \<and> \<not> (7 * 2 ^ 76 + 2 ^ 64 + 2 * 2 ^ 62 \<le> (7 * 2 ^ 76 + 2 * 2 ^ 62 :: int))"
  by (simp add: generate_uuidv7_layout rfc_layout_sum uuid4_zero_def take_bit_eq_mod
        drop_bit_eq_div)

text \<open>
  C9, amended: every call of \<open>generate_uuidv7\<close> returns an identifier (it never raises),
  a 128-bit value laid out from the most significant to the least significant bits as the
  low 48 bits of the Unix-millisecond timestamp, the 4-bit version 7, 12 random bits, the
  2-bit variant 10 and 62 random bits. Its most significant 48 bits are the timestamp
  modulo \<open>2 ^ 48\<close>, hence the timestamp itself when that is below \<open>2 ^ 48\<close>, and
  identifiers generated at strictly increasing timestamps below \<open>2 ^ 48\<close> compare in
  strictly increasing numeric order.
\<close>

theorem uuidv7_layout:
  "generate_uuidv7 ts a b = Inr (rfc_layout ts a b)
   \<and> 0 \<le> rfc_layout ts a b \<and> rfc_layout ts a b < 2 ^ 128
   \<and> drop_bit 80 (rfc_layout ts a b) = take_bit 48 ts
   \<and> (0 \<le> ts \<and> ts < 2 ^ 48 \<longrightarrow> drop_bit 80 (rfc_layout ts a b) = ts)
   \<and> (0 \<le> ts \<and> ts < ts' \<and> ts' < 2 ^ 48 \<longrightarrow> rfc_layout ts a b < rfc_layout ts' a' b')"
proof (intro conjI impI)
  show "generate_uuidv7 ts a b = Inr (rfc_layout ts a b)" by (rule generate_uuidv7_layout)
  show "0 \<le> rfc_layout ts a b" "rfc_layout ts a b < 2 ^ 128"
    using uuid_int_bounds [of ts a b] by (simp_all add: uuid_int_layout)
  show top: "drop_bit 80 (rfc_layout ts a b) = take_bit 48 ts"
    using uuid_int_top [of ts a b] by (simp add: uuid_int_layout)
  show "drop_bit 80 (rfc_layout ts a b) = ts" if "0 \<le> ts \<and> ts < 2 ^ 48"
    using that top by (simp add: take_bit_int_eq_self)
  show "rfc_layout ts a b < rfc_layout ts' a' b'" if "0 \<le> ts \<and> ts < ts' \<and> ts' < 2 ^ 48"
    using that by (intro rfc_layout_mono) simp_all
qed

theorem uuidv7_layout_witness:
  "(0::int) \<le> 1 \<and> (1::int) < 2 \<and> (2::int) < 2 ^ 48
   \<and> generate_uuidv7 1 uuid4_zero uuid4_zero = Inr (rfc_layout 1 uuid4_zero uuid4_zero)
   \<and> drop_bit 80 (rfc_layout 1 uuid4_zero uuid4_zero) = 1
   \<and> rfc_layout 1 uuid4_zero uuid4_zero < rfc_layout 2 uuid4_zero uuid4_zero"
  using uuidv7_layout [where ts = 1 and ts' = 2 and a = uuid4_zero and b = uuid4_zero
      and a' = uuid4_zero and b' = uuid4_zero]
  by simp

section \<open>Properties of quote execution\<close>

lemma generate_uuidv7_unbound: "''generate_uuidv7'' \<notin> set liquidity_module_names"
  by (simp add: liquidity_module_names_def)

lemma execute_quote_absent:
  assumes "redis_connected w" "kv w (''quote:'' @ qid) = None"
  shows "execute_quote_in names env qid w = (Inl (HTTPException 404), w)"
  using assms by (simp add: execute_quote_in_def execute_quote_body_def redis_get_def)

lemma execute_quote_expired:
  assumes "redis_connected w" "kv w (''quote:'' @ qid) = Some (QuoteDict q)"
    "env_now env > expires_at q"
  shows "execute_quote_in names env qid w = (Inl (HTTPException 410), w)"
  using assms by (simp add: execute_quote_in_def execute_quote_body_def redis_get_def)

lemma execute_quote_unbound:
  assumes "redis_connected w" "kv w (''quote:'' @ qid) = Some (QuoteDict q)"
    "\<not> env_now env > expires_at q" "''generate_uuidv7'' \<notin> set names"
  shows "execute_quote_in names env qid w = (Inl (ExternalServiceError ''liquidity_service''), w)"
  using assms
  by (simp add: execute_quote_in_def execute_quote_body_def redis_get_def lookup_global_def)

lemma execute_quote_bound:
  assumes "redis_connected w" "nats_connected w" "kv w (''quote:'' @ qid) = Some (QuoteDict q)"
    "\<not> env_now env > expires_at q" "''generate_uuidv7'' \<in> set names"
  shows "\<exists>r w'. execute_quote_in names env qid w = (Inr r, w')
           \<and> kv w' (''quote:'' @ qid) = None
           \<and> published w' = published w @ [(''liquidity.quote_executed'', QuoteExecuted r)]
           \<and> execute_quote_in names env qid w' = (Inl (HTTPException 404), w')"
  using assms
  by (simp add: execute_quote_in_def execute_quote_body_def redis_get_def lookup_global_def
        generate_uuidv7_layout redis_delete_def publish_def Let_def)

subsection \<open>Claim C6: single-use execution of a quote\<close>

text \<open>
  C6 describes what the function is written to do, and the first two outcomes hold (404
  for an absent record, 410 for an expired one, lemmas \<open>execute_quote_absent\<close> and
  \<open>execute_quote_expired\<close>). The third does not: for a stored quote that has not expired,
  building the execution result calls \<^verbatim>\<open>generate_uuidv7\<close>, a name this module never
  binds, so the call raises \<^verbatim>\<open>NameError\<close>, which the generic handler turns into
  \<open>ExternalServiceError\<close> (status 502) before the record is deleted or anything is
  published. The quote stays in the store, and a second execute fails in the same way
  instead of answering 404. With the name bound, the function does what C6 says
  (lemma \<open>execute_quote_bound\<close>).
\<close>

theorem execute_quote_live_quote_fails:
  "execute_quote at_100 ''q1'' quote_world
     = (Inl (ExternalServiceError ''liquidity_service''), quote_world)
   \<and> http_status_of (ExternalServiceError ''liquidity_service'') = 502
   \<and> kv quote_world ''quote:q1'' = Some (QuoteDict live_quote)
   \<and> env_now at_100 \<le> expires_at live_quote
   \<and> published quote_world = []
   \<and> fst (execute_quote at_100 ''q1'' (snd (execute_quote at_100 ''q1'' quote_world)))
       = Inl (ExternalServiceError ''liquidity_service'')"
proof -
  have c: "redis_connected quote_world"
    and k: "kv quote_world (''quote:'' @ ''q1'') = Some (QuoteDict live_quote)"
    by (simp_all add: quote_world_def)
  have t: "\<not> env_now at_100 > expires_at live_quote"
    by (simp add: at_100_def live_quote_def)
  have "execute_quote at_100 ''q1'' quote_world
     = (Inl (ExternalServiceError ''liquidity_service''), quote_world)"
    unfolding execute_quote_def
    by (rule execute_quote_unbound [OF c k t generate_uuidv7_unbound])
  then show ?thesis using k t
    by (simp add: get_http_status_def quote_world_def)
qed

section \<open>Properties of payment initiation\<close>

lemma decimal_float_examples:
  "decimal_float '''' = None"
  "decimal_float ''abc'' = None"
  "decimal_float ''100.00'' = Some (Finite 100)"
  by (simp_all add: decimal_float_def is_digit_def digits_value_def)

lemma initiate_empty_amount:
  assumes "req_amount request = []"
  shows "initiate_payment float_of unique_key env request K w = (Inl (ValidationError ''amount''), w)"
  using assms
  by (simp add: initiate_payment_def initiate_payment_body_def generate_uuidv7_layout Let_def)

lemma initiate_unparsed_amount:
  assumes "req_amount request \<noteq> []" "float_of (req_amount request) = None"
  shows "initiate_payment float_of unique_key env request K w = (Inl (PaymentError INTERNAL_ERROR), w)"
  using assms
  by (simp add: initiate_payment_def initiate_payment_body_def generate_uuidv7_layout Let_def)

lemma initiate_existing_key:
  assumes "K \<in> set (map idempotency_key (payments_table w))"
  shows "snd (initiate_payment float_of True env request K w) = w
         \<and> (\<exists>e. fst (initiate_payment float_of True env request K w) = Inl e)"
  using assms
  by (auto simp: initiate_payment_def initiate_payment_body_def generate_uuidv7_layout Let_def
        insert_returning_def split: option.splits)

lemma initiate_existing_key_valid:
  assumes "K \<in> set (map idempotency_key (payments_table w))" "valid_request float_of request"
  shows "initiate_payment float_of True env request K w = (Inl (PaymentError INTERNAL_ERROR), w)"
  using assms
  by (auto simp: initiate_payment_def initiate_payment_body_def generate_uuidv7_layout Let_def
        insert_returning_def valid_request_def split: option.splits)

lemma initiate_table:
  "payments_table (snd (initiate_payment float_of unique_key env request K w)) = payments_table w
   \<or> (\<exists>row. payments_table (snd (initiate_payment float_of unique_key env request K w))
               = payments_table w @ [row]
            \<and> idempotency_key row = K
            \<and> (unique_key \<longrightarrow> K \<notin> set (map idempotency_key (payments_table w))))"
  by (auto simp: initiate_payment_def initiate_payment_body_def generate_uuidv7_layout Let_def
        insert_returning_def publish_def split: option.splits)

lemma initiate_keeps_keys_distinct:
  assumes "distinct (map idempotency_key (payments_table w))"
  shows "distinct (map idempotency_key
           (payments_table (snd (initiate_payment float_of True env request K w))))"
  using initiate_table [of float_of True env request K w] assms by auto

lemma world_with_K_eq:
  "payments_table world_with_K =
     [\<lparr>row_transaction_id = rfc_layout 100000 uuid4_zero uuid4_zero, row_uetr = uuid4_zero,
       row_amount = ''100.00'', row_currency = ''USD'', row_debtor_account = ''A'',
       row_creditor_account = ''B'', row_payment_purpose = Some ''TRADE'',
       row_settlement_method = Some ''PVP'', row_status = INITIATED, row_created_at = 100,
       row_trace_id = None, idempotency_key = key_K\<rparr>]
   \<and> pg_connected world_with_K \<and> nats_connected world_with_K"
  by (simp add: world_with_K_def initiate_payment_def initiate_payment_body_def
        generate_uuidv7_layout Let_def insert_returning_def publish_def first_env_def
        usd_request_def empty_world_def decimal_float_examples)

lemma usd_request_valid: "valid_request decimal_float usd_request"
  by (simp add: valid_request_def usd_request_def decimal_float_examples)

lemma initiate_again_without_constraint:
  "map idempotency_key (payments_table
      (snd (initiate_payment decimal_float False second_env usd_request key_K world_with_K)))
     = [key_K, key_K]"
  using world_with_K_eq
  by (simp add: initiate_payment_def initiate_payment_body_def generate_uuidv7_layout Let_def
        insert_returning_def publish_def second_env_def usd_request_def decimal_float_examples)

lemma key_K_in_world: "key_K \<in> set (map idempotency_key (payments_table world_with_K))"
  using world_with_K_eq by simp

subsection \<open>Claim C5: a repeated initiation under one idempotency key\<close>

text \<open>
  C5, as stated, fails: \<^verbatim>\<open>insert_returning\<close> has no conflict clause and
  \<^verbatim>\<open>initiate_payment\<close> does not look for an existing row. After one successful
  initiation under the key K, a second one with the same request and key is rejected with
  \<open>INTERNAL_ERROR\<close> (500) when the table enforces uniqueness of the key (the driver's
  exception reaches the generic handler), and inserts a second row bearing K when it does
  not. In neither case is the existing row returned.
\<close>

theorem initiate_repeated_key_counterexample:
  "initiate_payment decimal_float True second_env usd_request key_K world_with_K
     = (Inl (PaymentError INTERNAL_ERROR), world_with_K)
   \<and> http_status_of (PaymentError INTERNAL_ERROR) = 500
   \<and> map idempotency_key (payments_table
        (snd (initiate_payment decimal_float False second_env usd_request key_K world_with_K)))
       = [key_K, key_K]"
  using initiate_existing_key_valid [OF key_K_in_world usd_request_valid, of second_env]
    initiate_again_without_constraint
  by (simp add: get_http_status_def)

text \<open>
  C5, amended: when the \<^verbatim>\<open>payments\<close> table enforces uniqueness of
  \<^verbatim>\<open>idempotency_key\<close>, Initiate keeps at most one row per idempotency key; called with
  a key K that a row already bears, it fails and changes nothing (no row, no event), and
  for a request that passes validation the failure is \<open>INTERNAL_ERROR\<close> (500).
\<close>

theorem initiate_under_unique_key:
  "(distinct (map idempotency_key (payments_table w)) \<longrightarrow>
      distinct (map idempotency_key
        (payments_table (snd (initiate_payment float_of True env request K w)))))
   \<and> (K \<in> set (map idempotency_key (payments_table w)) \<longrightarrow>
        snd (initiate_payment float_of True env request K w) = w
        \<and> (\<exists>e. fst (initiate_payment float_of True env request K w) = Inl e))
   \<and> (K \<in> set (map idempotency_key (payments_table w)) \<and> valid_request float_of request \<longrightarrow>
        initiate_payment float_of True env request K w = (Inl (PaymentError INTERNAL_ERROR), w))"
proof (intro conjI impI)
  show "distinct (map idempotency_key
          (payments_table (snd (initiate_payment float_of True env request K w))))"
    if "distinct (map idempotency_key (payments_table w))"
    using that by (rule initiate_keeps_keys_distinct)
  show "snd (initiate_payment float_of True env request K w) = w"
    if "K \<in> set (map idempotency_key (payments_table w))"
    using initiate_existing_key [OF that] by blast
  show "\<exists>e. fst (initiate_payment float_of True env request K w) = Inl e"
    if "K \<in> set (map idempotency_key (payments_table w))"
    using initiate_existing_key [OF that] by blast
  show "initiate_payment float_of True env request K w = (Inl (PaymentError INTERNAL_ERROR), w)"
    if "K \<in> set (map idempotency_key (payments_table w)) \<and> valid_request float_of request"
    using that by (intro initiate_existing_key_valid) simp_all
qed

theorem initiate_under_unique_key_witness:
  "distinct (map idempotency_key (payments_table world_with_K))
   \<and> key_K \<in> set (map idempotency_key (payments_table world_with_K))
   \<and> valid_request decimal_float usd_request
   \<and> snd (initiate_payment decimal_float True second_env usd_request key_K world_with_K)
       = world_with_K
   \<and> fst (initiate_payment decimal_float True second_env usd_request key_K world_with_K)
       = Inl (PaymentError INTERNAL_ERROR)
   \<and> distinct (map idempotency_key (payments_table
        (snd (initiate_payment decimal_float True second_env usd_request key_K world_with_K))))"
proof -
  have d: "distinct (map idempotency_key (payments_table world_with_K))"
    using world_with_K_eq by simp
  note k = key_K_in_world and v = usd_request_valid
  from initiate_under_unique_key [of world_with_K decimal_float second_env usd_request key_K]
    d k v
  show ?thesis by simp
qed

subsection \<open>Claim C10: an amount that is not a number\<close>

text \<open>
  C10, as stated, fails for the empty amount string: it does not parse as a number either,
  but the test \<^verbatim>\<open>not request.amount\<close> comes first, so the conversion never runs and the
  request is rejected with \<open>VALIDATION_ERROR\<close> (400).
\<close>

theorem initiate_empty_amount_counterexample:
  "decimal_float '''' = None
   \<and> initiate_payment decimal_float True first_env (usd_request\<lparr>req_amount := ''''\<rparr>) key_K
        empty_world
       = (Inl (ValidationError ''amount''), empty_world)
   \<and> http_status_of (ValidationError ''amount'') = 400"
  by (simp add: initiate_empty_amount decimal_float_examples get_http_status_def)

text \<open>
  C10, amended: a request whose amount string is not empty and does not parse as a number
  (for example \<^verbatim>\<open>abc\<close>) is rejected with the error code \<open>INTERNAL_ERROR\<close>
  (HTTP 500), not \<open>VALIDATION_ERROR\<close>; the stores are unchanged, so no row is inserted
  and no event is published.
\<close>

theorem initiate_unparsed_amount_internal_error:
  assumes "req_amount request \<noteq> []" "float_of (req_amount request) = None"
  shows "initiate_payment float_of unique_key env request K w
           = (Inl (PaymentError INTERNAL_ERROR), w)
         \<and> http_status_of (PaymentError INTERNAL_ERROR) = 500
         \<and> PaymentError INTERNAL_ERROR \<noteq> ValidationError ''amount''"
  using assms by (simp add: initiate_unparsed_amount get_http_status_def)

theorem initiate_unparsed_amount_internal_error_witness:
  "req_amount (usd_request\<lparr>req_amount := ''abc''\<rparr>) \<noteq> []
   \<and> decimal_float (req_amount (usd_request\<lparr>req_amount := ''abc''\<rparr>)) = None
   \<and> initiate_payment decimal_float True first_env (usd_request\<lparr>req_amount := ''abc''\<rparr>)
        key_K empty_world
       = (Inl (PaymentError INTERNAL_ERROR), empty_world)
   \<and> payments_table empty_world = [] \<and> published empty_world = []"
proof -
  have a: "req_amount (usd_request\<lparr>req_amount := ''abc''\<rparr>) \<noteq> []" by simp
  have b: "decimal_float (req_amount (usd_request\<lparr>req_amount := ''abc''\<rparr>)) = None"
    by (simp add: decimal_float_examples)
  from initiate_unparsed_amount_internal_error
         [where float_of = decimal_float and request = "usd_request\<lparr>req_amount := ''abc''\<rparr>"
            and unique_key = True and env = first_env and K = key_K and w = empty_world,
          OF a b] a b
  show ?thesis by (simp add: empty_world_def)
qed

section \<open>Properties of the idempotency middleware\<close>

lemma canonical_examples:
  "canonical_uuid version1_key"
  "\<not> canonical_uuid ''not-a-uuid''"
  "\<not> canonical_uuid ''''"
  "version_digit version1_key = CHR ''1''"
  by (simp_all add: canonical_uuid_def version1_key_def is_hex_def version_digit_def upt_rec)

lemma dispatch_missing:
  assumes "http_method req = ''POST''"
    "idempotency_key_header req = None \<or> idempotency_key_header req = Some []"
  shows "dispatch uuid_accepts app req w =
           (error_response 400 ''MISSING_IDEMPOTENCY_KEY''
              ''Idempotency-Key header is required for POST requests'', w)"
  using assms by (auto simp: dispatch_def missing_key_def)

lemma dispatch_invalid:
  assumes "http_method req = ''POST''" "idempotency_key_header req = Some k" "k \<noteq> []"
    "\<not> uuid_accepts k"
  shows "dispatch uuid_accepts app req w =
           (error_response 400 ''INVALID_IDEMPOTENCY_KEY''
              ''Idempotency-Key must be a valid UUID'', w)"
  using assms by (simp add: dispatch_def)

lemma version1_key_nonempty: "version1_key \<noteq> []"
  by (simp add: version1_key_def)

lemma dispatch_version1:
  "dispatch canonical_uuid ok_app (post_request (Some version1_key)) empty_world =
     (\<lparr>status_code = 200, body = Content ''ok'', headers = []\<rparr>,
      empty_world\<lparr>handled := [post_request (Some version1_key)],
                  kv := [''idempotency:'' @ version1_key \<mapsto>
                          CachedResponse (Some 200) (Some []) (Some (Content ''ok''))]\<rparr>)"
  by (simp add: dispatch_def canonical_examples version1_key_nonempty post_request_def cached_response_def
        redis_get_def empty_world_def process_and_cache_def call_next_def ok_app_def
        redis_set_def)

subsection \<open>Claim C4: missing and malformed idempotency keys\<close>

text \<open>
  C4, as stated, fails in its second half. The key is checked with \<^verbatim>\<open>uuid.UUID(key)\<close>,
  which accepts an identifier of any version: for the version-1 key
  \<^verbatim>\<open>00000000-0000-1000-8000-000000000000\<close>, which is no version-4 string, the request
  reaches the inner handler and is answered 200. And a header that is present but empty is
  answered as missing (\<^verbatim>\<open>MISSING_IDEMPOTENCY_KEY\<close>), not as invalid, because the test
  \<^verbatim>\<open>not idempotency_key\<close> comes first.
\<close>

theorem dispatch_invalid_key_counterexample:
  "version_digit version1_key \<noteq> CHR ''4''
   \<and> status_code (fst (dispatch canonical_uuid ok_app (post_request (Some version1_key))
                         empty_world)) = 200
   \<and> handled (snd (dispatch canonical_uuid ok_app (post_request (Some version1_key))
                      empty_world)) = [post_request (Some version1_key)]
   \<and> body (fst (dispatch canonical_uuid ok_app (post_request (Some '''')) empty_world))
       = ErrorContent ''MISSING_IDEMPOTENCY_KEY''
           ''Idempotency-Key header is required for POST requests''"
proof -
  have "dispatch canonical_uuid ok_app (post_request (Some '''')) empty_world =
           (error_response 400 ''MISSING_IDEMPOTENCY_KEY''
              ''Idempotency-Key header is required for POST requests'', empty_world)"
    by (rule dispatch_missing) (simp_all add: post_request_def)
  then show ?thesis
    by (simp add: dispatch_version1 canonical_examples error_response_def)
qed

text \<open>
  C4, amended: for every POST request, if the Idempotency-Key header is absent or empty,
  the result is status 400 with error code \<^verbatim>\<open>MISSING_IDEMPOTENCY_KEY\<close>; if it is present
  and not empty but is not a well-formed identifier of any version (\<^verbatim>\<open>uuid.UUID\<close>
  rejects it), the result is status 400 with error code \<^verbatim>\<open>INVALID_IDEMPOTENCY_KEY\<close>. In
  both cases the state is unchanged and the inner handler is not invoked.
\<close>

theorem dispatch_rejects_bad_keys:
  assumes "http_method req = ''POST''"
  shows "(idempotency_key_header req = None \<or> idempotency_key_header req = Some [] \<longrightarrow>
            dispatch uuid_accepts app req w =
              (\<lparr>status_code = 400,
                body = ErrorContent ''MISSING_IDEMPOTENCY_KEY''
                         ''Idempotency-Key header is required for POST requests'',
                headers = []\<rparr>, w))
         \<and> (\<forall>k. idempotency_key_header req = Some k \<and> k \<noteq> [] \<and> \<not> uuid_accepts k \<longrightarrow>
            dispatch uuid_accepts app req w =
              (\<lparr>status_code = 400,
                body = ErrorContent ''INVALID_IDEMPOTENCY_KEY''
                         ''Idempotency-Key must be a valid UUID'',
                headers = []\<rparr>, w))"
proof (intro conjI allI impI)
  assume "idempotency_key_header req = None \<or> idempotency_key_header req = Some []"
  with assms show "dispatch uuid_accepts app req w =
              (\<lparr>status_code = 400,
                body = ErrorContent ''MISSING_IDEMPOTENCY_KEY''
                         ''Idempotency-Key header is required for POST requests'',
                headers = []\<rparr>, w)"
    by (simp add: dispatch_missing error_response_def)
next
  fix k assume "idempotency_key_header req = Some k \<and> k \<noteq> [] \<and> \<not> uuid_accepts k"
  with assms show "dispatch uuid_accepts app req w =
              (\<lparr>status_code = 400,
                body = ErrorContent ''INVALID_IDEMPOTENCY_KEY''
                         ''Idempotency-Key must be a valid UUID'',
                headers = []\<rparr>, w)"
    by (simp add: dispatch_invalid error_response_def)
qed

theorem dispatch_rejects_bad_keys_witness:
  "http_method (post_request None) = ''POST''
   \<and> http_method (post_request (Some ''not-a-uuid'')) = ''POST''
   \<and> \<not> canonical_uuid ''not-a-uuid''
   \<and> dispatch canonical_uuid ok_app (post_request None) empty_world =
        (\<lparr>status_code = 400,
          body = ErrorContent ''MISSING_IDEMPOTENCY_KEY''
                   ''Idempotency-Key header is required for POST requests'',
          headers = []\<rparr>, empty_world)
   \<and> dispatch canonical_uuid ok_app (post_request (Some ''not-a-uuid'')) empty_world =
        (\<lparr>status_code = 400,
          body = ErrorContent ''INVALID_IDEMPOTENCY_KEY''
                   ''Idempotency-Key must be a valid UUID'',
          headers = []\<rparr>, empty_world)
   \<and> handled empty_world = []"
proof -
  have m1: "http_method (post_request None) = ''POST''"
    and m2: "http_method (post_request (Some ''not-a-uuid'')) = ''POST''"
    by (simp_all add: post_request_def)
  have n: "\<not> canonical_uuid ''not-a-uuid''" by (simp add: canonical_examples)
  have h1: "idempotency_key_header (post_request None) = None" by (simp add: post_request_def)
  have h2: "idempotency_key_header (post_request (Some ''not-a-uuid'')) = Some ''not-a-uuid''"
    by (simp add: post_request_def)
  from dispatch_rejects_bad_keys
         [where req = "post_request None" and uuid_accepts = canonical_uuid and app = ok_app
            and w = empty_world, OF m1]
       dispatch_rejects_bad_keys
         [where req = "post_request (Some ''not-a-uuid'')" and uuid_accepts = canonical_uuid
            and app = ok_app and w = empty_world, OF m2]
       m1 m2 n h1 h2
  show ?thesis by (simp add: empty_world_def)
qed

end
